theory Spec2Isabelle
  imports Main
begin

section \<open>Strings and the input sanitizer\<close>

text \<open>
  A JavaScript string is modelled as a \<open>string\<close> (a list of characters); one character
  stands for one UTF-16 code unit, so \<open>length\<close> is the source's \<open>.length\<close>. The four
  characters the sanitizer treats specially are named by their code.
\<close>

abbreviation BACKSLASH :: char where "BACKSLASH \<equiv> CHR 0x5C"
abbreviation DQUOTE :: char where "DQUOTE \<equiv> CHR 0x22"
abbreviation LF :: char where "LF \<equiv> CHR 0x0A"
abbreviation CR :: char where "CR \<equiv> CHR 0x0D"

text \<open>
  \<^verbatim>\<open>input.replace(/c/g, rep)\<close> for a pattern that matches the single character \<open>c\<close>:
  every occurrence is replaced, left to right, and the replacement is not scanned again.
\<close>

definition replace_all :: "char \<Rightarrow> string \<Rightarrow> string \<Rightarrow> string" where
  "replace_all c rep s = concat (map (\<lambda>x. if x = c then rep else [x]) s)"

text \<open>
  \<^verbatim>\<open>sanitizeSparqlString\<close> (index.ts, line 109): four replacements chained in the order
  backslash, double quote, newline, carriage return.
\<close>

definition sanitizeSparqlString :: "string \<Rightarrow> string" where
  "sanitizeSparqlString input =
     replace_all CR [BACKSLASH, CHR ''r'']
       (replace_all LF [BACKSLASH, CHR ''n'']
         (replace_all DQUOTE [BACKSLASH, DQUOTE]
           (replace_all BACKSLASH [BACKSLASH, BACKSLASH] input)))"


text \<open>What the four chained replacements do to one character of the input.\<close>

definition escape_char :: "char \<Rightarrow> string" where
  "escape_char c =
     (if c = BACKSLASH then [BACKSLASH, BACKSLASH]
      else if c = DQUOTE then [BACKSLASH, DQUOTE]
      else if c = LF then [BACKSLASH, CHR ''n'']
      else if c = CR then [BACKSLASH, CHR ''r'']
      else [c])"

lemma replace_all_Nil: "replace_all c rep [] = []"
  by (simp add: replace_all_def)

lemma replace_all_Cons:
  "replace_all c rep (x # s) = (if x = c then rep else [x]) @ replace_all c rep s"
  by (simp add: replace_all_def)

lemma replace_all_append:
  "replace_all c rep (xs @ ys) = replace_all c rep xs @ replace_all c rep ys"
  by (simp add: replace_all_def)

lemma sanitize_Nil: "sanitizeSparqlString [] = []"
  by (simp add: sanitizeSparqlString_def replace_all_Nil)

lemma sanitize_Cons:
  "sanitizeSparqlString (x # s) = escape_char x @ sanitizeSparqlString s"
  unfolding sanitizeSparqlString_def escape_char_def
  by (simp add: replace_all_Cons replace_all_append replace_all_Nil)

text \<open>
  Because the backslash is escaped first, the backslashes that the later replacements
  introduce are never escaped again: the chain acts character by character.
\<close>

lemma sanitize_per_character:
  "sanitizeSparqlString s = concat (map escape_char s)"
  by (induction s) (simp_all add: sanitize_Nil sanitize_Cons)



section \<open>JavaScript values the pipeline reads\<close>

text \<open>
  A value that the source guards with \<^verbatim>\<open>?.\<close>, \<^verbatim>\<open>??\<close>, \<^verbatim>\<open>||\<close> or a truthiness test may be
  \<^verbatim>\<open>undefined\<close> (a property that is absent) or \<^verbatim>\<open>null\<close>.
\<close>

datatype 'a nullable = Undefined | Null | Val 'a

definition nullish :: "'a nullable \<Rightarrow> bool" where
  "nullish x = (case x of Val _ \<Rightarrow> False | _ \<Rightarrow> True)"

text \<open>\<^verbatim>\<open>x?.f\<close>: \<^verbatim>\<open>undefined\<close> when \<open>x\<close> is \<^verbatim>\<open>undefined\<close> or \<^verbatim>\<open>null\<close>, the field \<open>f\<close> of \<open>x\<close> otherwise.\<close>

definition opt_chain :: "'a nullable \<Rightarrow> ('a \<Rightarrow> 'b nullable) \<Rightarrow> 'b nullable" where
  "opt_chain x f = (case x of Val v \<Rightarrow> f v | _ \<Rightarrow> Undefined)"

text \<open>\<^verbatim>\<open>x ?? null\<close>, for a cell of type \<^verbatim>\<open>string | null\<close>: \<open>None\<close> is \<^verbatim>\<open>null\<close>.\<close>

definition or_null :: "'a nullable \<Rightarrow> 'a option" where
  "or_null x = (case x of Val v \<Rightarrow> Some v | _ \<Rightarrow> None)"

text \<open>\<^verbatim>\<open>x ?? d\<close> for a default \<open>d\<close> of the same type.\<close>

definition or_default :: "'a nullable \<Rightarrow> 'a \<Rightarrow> 'a" where
  "or_default x d = (case x of Val v \<Rightarrow> v | _ \<Rightarrow> d)"

text \<open>
  An object used as a dictionary (\<^verbatim>\<open>Record<string, V>\<close>, a binding row) is the association
  list of its own properties, in property order. \<open>obj_get\<close> reads an own property and
  \<open>obj_set\<close> defines one, overwriting the entry in place or appending a new one: this is
  what \<^verbatim>\<open>JSON.parse\<close> does for every key, and what \<^verbatim>\<open>o.f\<close> does for the fixed property
  names of the source (\<^verbatim>\<open>notation\<close>, \<^verbatim>\<open>name\<close>, \<^verbatim>\<open>total\<close>, ...), none of which is a
  member of \<^verbatim>\<open>Object.prototype\<close>. The engine's placing of array-index keys before the
  other keys is not modelled.
\<close>

definition obj_get :: "(string \<times> 'v) list \<Rightarrow> string \<Rightarrow> 'v nullable" where
  "obj_get obj k = (case map_of obj k of Some v \<Rightarrow> Val v | None \<Rightarrow> Undefined)"

fun obj_set :: "string \<Rightarrow> 'v \<Rightarrow> (string \<times> 'v) list \<Rightarrow> (string \<times> 'v) list" where
  "obj_set k v [] = [(k, v)]"
| "obj_set k v ((k', v') # rest) =
     (if k' = k then (k, v) # rest else (k', v') # obj_set k v rest)"

text \<open>
  The dictionaries of the source are plain objects (\<^verbatim>\<open>{}\<close>, or made by \<^verbatim>\<open>JSON.parse\<close>), so
  they inherit from \<^verbatim>\<open>Object.prototype\<close>. Its members are eleven functions, listed here
  with the \<^verbatim>\<open>name\<close> of each function, and the accessor \<^verbatim>\<open>__proto__\<close>.
\<close>

definition Object_prototype_functions :: "(string \<times> string) list" where
  "Object_prototype_functions =
     [(''constructor'', ''Object''),
      (''__defineGetter__'', ''__defineGetter__''),
      (''__defineSetter__'', ''__defineSetter__''),
      (''hasOwnProperty'', ''hasOwnProperty''),
      (''__lookupGetter__'', ''__lookupGetter__''),
      (''__lookupSetter__'', ''__lookupSetter__''),
      (''isPrototypeOf'', ''isPrototypeOf''),
      (''propertyIsEnumerable'', ''propertyIsEnumerable''),
      (''toString'', ''toString''),
      (''valueOf'', ''valueOf''),
      (''toLocaleString'', ''toLocaleString'')]"

text \<open>
  What \<^verbatim>\<open>o[k]\<close> answers for a key \<open>k\<close> that is data: the own property when there is one,
  otherwise the inherited member, which is a built-in function (given by its \<^verbatim>\<open>name\<close>)
  or, under \<^verbatim>\<open>__proto__\<close>, the object \<^verbatim>\<open>Object.prototype\<close> itself; \<^verbatim>\<open>undefined\<close> when
  there is neither.
\<close>

datatype 'v property_value = Own 'v | Builtin string | ObjectPrototype

definition inherited :: "string \<Rightarrow> 'v property_value nullable" where
  "inherited k =
     (if k = ''__proto__'' then Val ObjectPrototype
      else case map_of Object_prototype_functions k of
             Some f \<Rightarrow> Val (Builtin f)
           | None \<Rightarrow> Undefined)"

definition plain_get :: "(string \<times> 'v) list \<Rightarrow> string \<Rightarrow> 'v property_value nullable" where
  "plain_get obj k = (case map_of obj k of Some v \<Rightarrow> Val (Own v) | None \<Rightarrow> inherited k)"

text \<open>
  \<^verbatim>\<open>o[k] = v\<close> for a string \<open>v\<close> and a key \<open>k\<close> that is data. The function members of
  \<^verbatim>\<open>Object.prototype\<close> are writable, so the assignment defines an own property as for
  any other key. Under \<^verbatim>\<open>__proto__\<close>, unless the object has an own property of that
  name, the assignment calls the inherited setter, which ignores a value that is neither
  an object nor \<^verbatim>\<open>null\<close>: nothing is stored.
\<close>

definition plain_set :: "string \<Rightarrow> 'v \<Rightarrow> (string \<times> 'v) list \<Rightarrow> (string \<times> 'v) list" where
  "plain_set k v obj =
     (if k = ''__proto__'' \<and> map_of obj k = None then obj else obj_set k v obj)"

text \<open>
  Every value is truthy but \<^verbatim>\<open>undefined\<close>, \<^verbatim>\<open>null\<close> and, among the strings, the empty
  one.
\<close>

definition truthy_value :: "string property_value nullable \<Rightarrow> bool" where
  "truthy_value x = (case x of Val (Own s) \<Rightarrow> s \<noteq> [] | Val _ \<Rightarrow> True | _ \<Rightarrow> False)"

text \<open>\<^verbatim>\<open>Object.keys(o)\<close>, and the keys a \<^verbatim>\<open>for (const key in o)\<close> loop visits.\<close>

definition Object_keys :: "(string \<times> 'v) list \<Rightarrow> string list" where
  "Object_keys obj = map fst obj"

definition Object_values :: "(string \<times> 'v) list \<Rightarrow> 'v list" where
  "Object_values obj = map snd obj"

text \<open>\<^verbatim>\<open>xs[i]\<close>: \<^verbatim>\<open>undefined\<close> out of range.\<close>

definition array_at :: "'a list \<Rightarrow> nat \<Rightarrow> 'a nullable" where
  "array_at xs i = (if i < length xs then Val (xs ! i) else Undefined)"

lemma opt_chain_simps:
  "opt_chain (Val v) f = f v" "opt_chain Undefined f = Undefined" "opt_chain Null f = Undefined"
  by (simp_all add: opt_chain_def)

lemma map_of_obj_set: "map_of (obj_set k v obj) = (map_of obj)(k \<mapsto> v)"
  by (induction obj) (auto simp: fun_eq_iff)

lemma keys_obj_set: "fst ` set (obj_set k v obj) = insert k (fst ` set obj)"
proof -
  have "fst ` set (obj_set k v obj) = dom (map_of (obj_set k v obj))"
    by (simp add: dom_map_of_conv_image_fst)
  also have "\<dots> = insert k (dom (map_of obj))"
    by (simp add: map_of_obj_set)
  finally show ?thesis
    by (simp add: dom_map_of_conv_image_fst)
qed

lemma distinct_obj_set:
  "distinct (map fst obj) \<Longrightarrow> distinct (map fst (obj_set k v obj))"
  by (induction obj) (auto simp: keys_obj_set)

text \<open>
  An \<^verbatim>\<open>Error\<close> object: its \<^verbatim>\<open>name\<close> and its \<^verbatim>\<open>message\<close>. Every value thrown in the
  modelled code is one, so \<^verbatim>\<open>getErrorMessage\<close> (line 197) returns the message.
\<close>

datatype js_error = JsError string string

definition Error :: "string \<Rightarrow> js_error" where
  "Error msg = JsError ''Error'' msg"

fun error_name :: "js_error \<Rightarrow> string" where
  "error_name (JsError n m) = n"

fun getErrorMessage :: "js_error \<Rightarrow> string" where
  "getErrorMessage (JsError n m) = m"

text \<open>
  The \<^verbatim>\<open>TypeError\<close> of reading \<^verbatim>\<open>length\<close> from \<^verbatim>\<open>undefined\<close>, in the wording of V8.
\<close>

definition length_of_undefined :: js_error where
  "length_of_undefined =
     JsError ''TypeError''
       (''Cannot read properties of undefined (reading '' @ [CHR 0x27] @ ''length'' @ [CHR 0x27] @ '')'')"

text \<open>A loop whose body may throw: the first error ends it.\<close>

fun fold_try :: "('s \<Rightarrow> 'a \<Rightarrow> js_error + 's) \<Rightarrow> 's \<Rightarrow> 'a list \<Rightarrow> js_error + 's" where
  "fold_try f s [] = Inr s"
| "fold_try f s (x # xs) = (case f s x of Inl e \<Rightarrow> Inl e | Inr s' \<Rightarrow> fold_try f s' xs)"

section \<open>The result compressor\<close>

text \<open>
  The interfaces of index.ts, lines 14 to 42. The fields that \<^verbatim>\<open>compressSparqlResult\<close>
  and the tool handlers read through \<^verbatim>\<open>?.\<close> are nullable, as the code treats them.
\<close>

record SparqlBindingValue =
  type_v :: string
  value_v :: string
  datatype_v :: "string option"
  lang_v :: "string option"

type_synonym SparqlBinding = "(string \<times> SparqlBindingValue) list"

record Head =
  vars :: "string list nullable"

record Results =
  bindings :: "SparqlBinding list nullable"

record SparqlResult =
  head :: "Head nullable"
  results :: "Results nullable"

text \<open>
  \<^verbatim>\<open>CompressedResult = CompressedTabular | CompressedSimple | []\<close>; the empty-list sentinel is
  \<open>CompressedSimple []\<close>.
\<close>

datatype CompressedResult =
    CompressedSimple "(string \<times> string) list list"
  | CompressedTabular "string list" "string option list list"

text \<open>
  The body of the \<^verbatim>\<open>for (const key in binding)\<close> loop (lines 178 to 185). The key has passed
  the \<^verbatim>\<open>hasOwnProperty\<close> test, so \<^verbatim>\<open>binding[key]\<close> is an own property; a binding value is an
  object, hence truthy, whenever it is present. \<^verbatim>\<open>row\<close> was born as \<^verbatim>\<open>{}\<close> and the value
  assigned is a string.
\<close>

definition simplify_step ::
  "SparqlBinding \<Rightarrow> (string \<times> string) list \<Rightarrow> string \<Rightarrow> (string \<times> string) list" where
  "simplify_step binding row key =
     (case obj_get binding key of
        Val bindingValue \<Rightarrow> plain_set key (value_v bindingValue) row
      | _ \<Rightarrow> row)"

definition simplify_binding :: "SparqlBinding \<Rightarrow> (string \<times> string) list" where
  "simplify_binding binding = foldl (simplify_step binding) [] (Object_keys binding)"

text \<open>
  \<^verbatim>\<open>b[h]?.value\<close> for a header \<open>h\<close>: a built-in function and \<^verbatim>\<open>Object.prototype\<close> have no
  property \<^verbatim>\<open>value\<close>.
\<close>

definition header_value :: "SparqlBinding \<Rightarrow> string \<Rightarrow> string nullable" where
  "header_value b h =
     opt_chain (plain_get b h) (\<lambda>m. case m of Own bv \<Rightarrow> Val (value_v bv) | _ \<Rightarrow> Undefined)"

text \<open>\<^verbatim>\<open>compressSparqlResult\<close> (lines 159 to 190).\<close>

definition compressSparqlResult :: "SparqlResult nullable \<Rightarrow> CompressedResult" where
  "compressSparqlResult result =
     (case opt_chain (opt_chain result results) bindings of
        Val bs \<Rightarrow>
          if length bs = 0 then CompressedSimple []
          else if length bs > 5 then
            (let firstBinding = array_at bs 0;
                 headers = (case opt_chain (opt_chain result head) vars of
                              Val vs \<Rightarrow> vs
                            | _ \<Rightarrow> (case firstBinding of
                                       Val fb \<Rightarrow> Object_keys fb
                                     | _ \<Rightarrow> []));
                 rows = map (\<lambda>b. map (\<lambda>h. or_null (header_value b h)) headers) bs
             in CompressedTabular headers rows)
          else CompressedSimple (map simplify_binding bs)
      | _ \<Rightarrow> CompressedSimple [])"

text \<open>
  A complete endpoint response, the specification's ResultSet: the declared variables
  and the rows, every field present.
\<close>

definition SparqlResult_of :: "string list \<Rightarrow> SparqlBinding list \<Rightarrow> SparqlResult nullable" where
  "SparqlResult_of vs bs =
     Val \<lparr>head = Val \<lparr>vars = Val vs\<rparr>, results = Val \<lparr>bindings = Val bs\<rparr>\<rparr>"

definition lit :: "string \<Rightarrow> SparqlBindingValue" where
  "lit s = \<lparr>type_v = ''literal'', value_v = s, datatype_v = None, lang_v = None\<rparr>"

definition lit3 :: "SparqlBinding list" where
  "lit3 = [[(''s'', lit ''a''), (''o'', lit ''b'')], [(''s'', lit ''c'')], []]"

text \<open>
  The answer to \<^verbatim>\<open>SELECT ?__proto__ ?s\<close> with one solution. \<^verbatim>\<open>__proto__\<close> is a variable
  name of SPARQL, and \<^verbatim>\<open>JSON.parse\<close> makes it an own property of the row.
\<close>

definition proto_binding :: SparqlBinding where
  "proto_binding = [(''__proto__'', lit ''x''), (''s'', lit ''a'')]"

lemma map_of_plain_set:
  "map_of (plain_set k v obj) =
     (if k = ''__proto__'' \<and> map_of obj k = None then map_of obj else (map_of obj)(k \<mapsto> v))"
  by (auto simp: plain_set_def map_of_obj_set)

lemma distinct_plain_set:
  "distinct (map fst obj) \<Longrightarrow> distinct (map fst (plain_set k v obj))"
  by (simp add: plain_set_def distinct_obj_set)

lemma simplify_step_no_proto:
  assumes "map_of row ''__proto__'' = None"
  shows "map_of (simplify_step binding row key) ''__proto__'' = None"
  using assms
  by (cases "map_of binding key") (auto simp: simplify_step_def obj_get_def map_of_plain_set)

lemma map_of_simplify_step:
  assumes "map_of row ''__proto__'' = None"
  shows "map_of (simplify_step binding row key) k =
     (if k = key \<and> key \<noteq> ''__proto__'' \<and> map_of binding key \<noteq> None
      then map_option value_v (map_of binding key) else map_of row k)"
  using assms
  by (cases "map_of binding key") (auto simp: simplify_step_def obj_get_def map_of_plain_set)

lemma simplify_fold:
  assumes "map_of row0 ''__proto__'' = None"
  shows "map_of (foldl (simplify_step binding) row0 ks) k
   = (if k \<in> set ks \<and> k \<noteq> ''__proto__'' \<and> map_of binding k \<noteq> None
      then map_option value_v (map_of binding k) else map_of row0 k)"
  using assms
proof (induction ks arbitrary: row0)
  case Nil
  then show ?case by simp
next
  case (Cons a ks)
  from Cons.prems have "map_of (simplify_step binding row0 a) ''__proto__'' = None"
    by (rule simplify_step_no_proto)
  from Cons.IH [OF this] show ?case
    by (auto simp: map_of_simplify_step [OF Cons.prems])
qed

text \<open>
  What a simplified row holds: under every variable but \<^verbatim>\<open>__proto__\<close>, the plain value of
  the binding exactly when the row binds the variable; under \<^verbatim>\<open>__proto__\<close>, nothing.
\<close>

lemma map_of_simplify_binding:
  "map_of (simplify_binding binding) k =
     (if k = ''__proto__'' then None else map_option value_v (map_of binding k))"
proof (cases "map_of binding k")
  case None
  then show ?thesis by (simp add: simplify_binding_def simplify_fold)
next
  case (Some bv)
  then have "k \<in> set (map fst binding)"
    by (metis map_of_eq_None_iff option.distinct(1) set_map)
  with Some show ?thesis
    by (simp add: simplify_binding_def Object_keys_def simplify_fold)
qed

lemma distinct_simplify_step:
  "distinct (map fst row) \<Longrightarrow> distinct (map fst (simplify_step binding row key))"
  by (cases "obj_get binding key") (simp_all add: simplify_step_def distinct_plain_set)

lemma distinct_simplify_fold:
  "distinct (map fst row0) \<Longrightarrow>
   distinct (map fst (foldl (simplify_step binding) row0 ks))"
  by (induction ks arbitrary: row0) (simp_all add: distinct_simplify_step)

lemma distinct_simplify_binding: "distinct (map fst (simplify_binding binding))"
  unfolding simplify_binding_def by (rule distinct_simplify_fold) simp

lemma header_value_own: "or_null (header_value b h) = map_option value_v (map_of b h)"
proof (cases "map_of b h")
  case None
  then show ?thesis
    by (simp add: header_value_def plain_get_def inherited_def opt_chain_def or_null_def
        split: option.split)
next
  case (Some bv)
  then show ?thesis
    by (simp add: header_value_def plain_get_def opt_chain_def or_null_def)
qed

lemma compress_of_bindings:
  "compressSparqlResult (SparqlResult_of vs bs) =
     (if length bs = 0 then CompressedSimple []
      else if length bs > 5
      then CompressedTabular vs
             (map (\<lambda>b. map (\<lambda>h. map_option value_v (map_of b h)) vs) bs)
      else CompressedSimple (map simplify_binding bs))"
  by (simp add: compressSparqlResult_def SparqlResult_of_def opt_chain_simps header_value_own
      Let_def)

text \<open>
  The three shapes, on a complete result with declared variables \<open>vs\<close> and rows \<open>bs\<close>: the
  empty list when there is no row; for 1 to 5 rows a list of as many records, each with
  distinct keys and holding under a variable other than \<^verbatim>\<open>__proto__\<close> the plain string
  value of its binding exactly when the row binds the variable; for more than 5 rows the
  tabular form whose headers are \<open>vs\<close> and whose rows have one cell per header, the string
  value when the row binds the header and null (\<open>None\<close>) when not.
\<close>

lemma compress_shapes:
  "(length bs = 0 \<longrightarrow> compressSparqlResult (SparqlResult_of vs bs) = CompressedSimple []) \<and>
   (1 \<le> length bs \<and> length bs \<le> 5 \<longrightarrow>
      (\<exists>recs. compressSparqlResult (SparqlResult_of vs bs) = CompressedSimple recs \<and>
         length recs = length bs \<and>
         (\<forall>i<length bs. distinct (map fst (recs ! i)) \<and>
            (\<forall>v. map_of (recs ! i) v =
                   (if v = ''__proto__'' then None
                    else map_option value_v (map_of (bs ! i) v)))))) \<and>
   (5 < length bs \<longrightarrow>
      (\<exists>rows. compressSparqlResult (SparqlResult_of vs bs) = CompressedTabular vs rows \<and>
         length rows = length bs \<and>
         (\<forall>i<length bs. length (rows ! i) = length vs \<and>
            (\<forall>j<length vs. rows ! i ! j = map_option value_v (map_of (bs ! i) (vs ! j))))))"
  by (simp add: compress_of_bindings map_of_simplify_binding distinct_simplify_binding)

lemma compress_shapes_example:
  "compressSparqlResult (SparqlResult_of [''s'', ''o''] []) = CompressedSimple [] \<and>
   compressSparqlResult (SparqlResult_of [''s'', ''o''] lit3)
     = CompressedSimple [[(''s'', ''a''), (''o'', ''b'')], [(''s'', ''c'')], []] \<and>
   compressSparqlResult (SparqlResult_of [''s'', ''o''] (lit3 @ lit3))
     = CompressedTabular [''s'', ''o'']
         [[Some ''a'', Some ''b''], [Some ''c'', None], [None, None],
          [Some ''a'', Some ''b''], [Some ''c'', None], [None, None]]"
  by (simp add: compress_of_bindings lit3_def lit_def simplify_binding_def simplify_step_def
      Object_keys_def obj_get_def plain_set_def)

text \<open>
  Claim C6 holds of every variable but one, and the code breaks it there. A result of one
  row that binds \<^verbatim>\<open>__proto__\<close> to \<^verbatim>\<open>x\<close> and \<^verbatim>\<open>s\<close> to \<^verbatim>\<open>a\<close> is compressed to a record that
  holds \<^verbatim>\<open>s\<close> alone: the assignment \<^verbatim>\<open>row[key] = bindingValue.value\<close> of line 182 stores
  nothing under \<^verbatim>\<open>__proto__\<close>, and the value of the binding is lost. The tabular path
  keeps it: six such rows give the header \<^verbatim>\<open>__proto__\<close> and the cell \<^verbatim>\<open>x\<close> in every row.
\<close>

theorem compress_drops_proto_variable:
  "compressSparqlResult (SparqlResult_of [''__proto__'', ''s''] [proto_binding])
     = CompressedSimple [[(''s'', ''a'')]] \<and>
   map_of proto_binding ''__proto__'' = Some (lit ''x'') \<and>
   compressSparqlResult (SparqlResult_of [''__proto__'', ''s''] (replicate 6 proto_binding))
     = CompressedTabular [''__proto__'', ''s''] (replicate 6 [Some ''x'', Some ''a''])"
  by (simp add: compress_of_bindings proto_binding_def lit_def simplify_binding_def
      simplify_step_def Object_keys_def obj_get_def plain_set_def)

text \<open>
  Claim C10. When the result itself, its \<^verbatim>\<open>results\<close> field or the \<^verbatim>\<open>bindings\<close> field of
  \<^verbatim>\<open>results\<close> is absent or null, \<^verbatim>\<open>compressSparqlResult\<close> returns the empty list: the
  optional chain of line 160 answers before any field of a missing object is read.
\<close>

theorem compress_missing_bindings:
  assumes "nullish result \<or>
           (\<exists>r. result = Val r \<and>
              (nullish (results r) \<or> (\<exists>rs. results r = Val rs \<and> nullish (bindings rs))))"
  shows "compressSparqlResult result = CompressedSimple []"
  using assms
  by (auto simp: compressSparqlResult_def opt_chain_def nullish_def split: nullable.splits)

theorem compress_missing_bindings_witness:
  "nullish (results \<lparr>head = Undefined, results = Null\<rparr>) \<and>
   compressSparqlResult (Val \<lparr>head = Undefined, results = Null\<rparr>) = CompressedSimple [] \<and>
   nullish (bindings \<lparr>bindings = Undefined\<rparr>) \<and>
   compressSparqlResult
     (Val \<lparr>head = Val \<lparr>vars = Val [''s'']\<rparr>, results = Val \<lparr>bindings = Undefined\<rparr>\<rparr>)
     = CompressedSimple []"
  using compress_missing_bindings [of "Val \<lparr>head = Undefined, results = Null\<rparr>"]
    compress_missing_bindings
      [of "Val \<lparr>head = Val \<lparr>vars = Val [''s'']\<rparr>, results = Val \<lparr>bindings = Undefined\<rparr>\<rparr>"]
  by (simp add: nullish_def)

section \<open>Numbers and pagination\<close>

text \<open>
  A JavaScript number is an integer or \<^verbatim>\<open>NaN\<close>; fractions and the rounding of integers
  beyond 2^53 are not modelled. A comparison with \<^verbatim>\<open>NaN\<close> is false.
\<close>

datatype number = NaN | Num int

definition less_number :: "int \<Rightarrow> number \<Rightarrow> bool" where
  "less_number a b = (case b of Num n \<Rightarrow> a < n | NaN \<Rightarrow> False)"

definition is_space :: "char \<Rightarrow> bool" where
  "is_space c =
     (c \<in> set [CHR 0x20, CHR 0x09, CHR 0x0A, CHR 0x0B, CHR 0x0C, CHR 0x0D, CHR 0xA0])"

definition is_digit :: "char \<Rightarrow> bool" where
  "is_digit c = (48 \<le> (of_char c :: nat) \<and> (of_char c :: nat) \<le> 57)"

definition digit_value :: "char \<Rightarrow> nat" where
  "digit_value c = of_char c - 48"

definition decimal_value :: "string \<Rightarrow> nat" where
  "decimal_value ds = foldl (\<lambda>a d. 10 * a + digit_value d) 0 ds"

text \<open>
  \<^verbatim>\<open>parseInt(s, 10)\<close>: leading white space and one sign are skipped, the longest run of
  decimal digits is read, and the result is \<^verbatim>\<open>NaN\<close> when there is no digit.
\<close>

definition parseInt :: "string \<Rightarrow> number" where
  "parseInt s =
     (let t = dropWhile is_space s;
          negative = (case t of c # _ \<Rightarrow> c = CHR ''-'' | [] \<Rightarrow> False);
          u = (case t of c # r \<Rightarrow> if c = CHR ''-'' \<or> c = CHR ''+'' then r else t | [] \<Rightarrow> []);
          ds = takeWhile is_digit u
      in if ds = [] then NaN
         else Num (if negative then - int (decimal_value ds) else int (decimal_value ds)))"

text \<open>The pagination object that the listing tools build (for example lines 803 to 809).\<close>

record PaginationInfo =
  total_p :: number
  count :: nat
  offset :: int
  has_more :: bool
  next_offset :: "int option"

text \<open>\<^verbatim>\<open>ToolResult<T> = ToolSuccess<T> | ToolError\<close> (lines 44 to 59).\<close>

datatype 'a ToolResult =
    ToolSuccess 'a "nat option"
  | ToolError string "string option"

text \<open>\<^verbatim>\<open>r.results?.bindings?.length ?? 0\<close>\<close>

definition binding_count :: "SparqlResult \<Rightarrow> nat" where
  "binding_count r =
     or_default (opt_chain (opt_chain (results r) bindings) (\<lambda>bs. Val (length bs))) 0"

text \<open>\<^verbatim>\<open>row.f?.value\<close>\<close>

definition field_value :: "SparqlBinding \<Rightarrow> string \<Rightarrow> string nullable" where
  "field_value row f = opt_chain (obj_get row f) (\<lambda>bv. Val (value_v bv))"

text \<open>\<^verbatim>\<open>parseInt(countResult.results?.bindings?.[0]?.total?.value ?? "0", 10)\<close>\<close>

definition count_total :: "SparqlResult \<Rightarrow> number" where
  "count_total countResult =
     parseInt (or_default
       (opt_chain (opt_chain (opt_chain (results countResult) bindings) (\<lambda>bs. array_at bs 0))
          (\<lambda>row. field_value row ''total''))
       ''0'')"

text \<open>
  The handler of \<^verbatim>\<open>list_datasets\<close> after its two queries have answered (lines 795 to
  812): \<open>off\<close> is the caller's \<^verbatim>\<open>offset\<close>.
\<close>

record ListDatasetsData =
  items :: CompressedResult
  pagination :: PaginationInfo

definition list_datasets_data :: "int \<Rightarrow> SparqlResult \<Rightarrow> SparqlResult \<Rightarrow> ListDatasetsData" where
  "list_datasets_data off dataResult countResult =
     (let its = compressSparqlResult (Val dataResult);
          cnt = binding_count dataResult;
          tot = count_total countResult
      in \<lparr>items = its,
          pagination = \<lparr>total_p = tot, count = cnt, offset = off,
                        has_more = less_number (off + int cnt) tot,
                        next_offset = (if less_number (off + int cnt) tot
                                       then Some (off + int cnt) else None)\<rparr>\<rparr>)"

definition list_datasets_result ::
  "int \<Rightarrow> SparqlResult \<Rightarrow> SparqlResult \<Rightarrow> ListDatasetsData ToolResult" where
  "list_datasets_result off dataResult countResult =
     ToolSuccess (list_datasets_data off dataResult countResult) (Some (binding_count dataResult))"

section \<open>The multi-source reconciler\<close>

text \<open>\<^verbatim>\<open>r.results?.bindings ?? []\<close>\<close>

definition rows_of :: "SparqlResult \<Rightarrow> SparqlBinding list" where
  "rows_of r = or_default (opt_chain (results r) bindings) []"

text \<open>
  The auxiliary lookups (lines 1697 to 1704 and 1851 to 1863): one loop for each of
  \<^verbatim>\<open>belfiore\<close>, \<^verbatim>\<open>sigla\<close> and \<^verbatim>\<open>metro\<close>, the same but for the name of the field. The
  lookup was born as \<^verbatim>\<open>{}\<close>, its key is the notation of the row and the value stored is
  a string.
\<close>

definition lookup_step ::
  "string \<Rightarrow> (string \<times> string) list \<Rightarrow> SparqlBinding \<Rightarrow> (string \<times> string) list" where
  "lookup_step field lookup b =
     (case (field_value b ''notation'', field_value b field) of
        (Val n, Val v) \<Rightarrow> if n \<noteq> [] \<and> v \<noteq> [] then plain_set n v lookup else lookup
      | _ \<Rightarrow> lookup)"

definition build_lookup :: "string \<Rightarrow> SparqlResult \<Rightarrow> (string \<times> string) list" where
  "build_lookup field r = foldl (lookup_step field) [] (rows_of r)"

text \<open>
  \<^verbatim>\<open>list_municipalities\<close> with Belfiore codes. A stored record holds under \<^verbatim>\<open>belfiore\<close>
  what \<^verbatim>\<open>belfioreLookup[notation]\<close> answered, when that was truthy; \<open>belfiore_m = None\<close> is
  a record without the optional property.
\<close>

record Municipality =
  notation_m :: string
  name_m :: string
  belfiore_m :: "string property_value option"

text \<open>
  The body of the deduplication loop (lines 1708 to 1720). \<^verbatim>\<open>cityMap\<close> was born as \<^verbatim>\<open>{}\<close>
  and its key is the notation of the row, so \<^verbatim>\<open>existing = cityMap[notation]\<close> is the
  record stored under the notation or, when there is none, what the object inherits
  under that name. A built-in function is truthy and has a \<^verbatim>\<open>name\<close>: the row is stored
  only when its name is longer than the function's. \<^verbatim>\<open>Object.prototype\<close>, answered under
  \<^verbatim>\<open>__proto__\<close>, is truthy and has no \<^verbatim>\<open>name\<close>: \<^verbatim>\<open>existing.name.length\<close> throws. The
  assignment \<^verbatim>\<open>cityMap[notation] = {...}\<close> is therefore never reached under \<^verbatim>\<open>__proto__\<close>;
  under any other key it defines an own property.
\<close>

definition cityMap_step ::
  "(string \<times> string) list \<Rightarrow> (string \<times> Municipality) list \<Rightarrow> SparqlBinding
     \<Rightarrow> js_error + (string \<times> Municipality) list" where
  "cityMap_step belfioreLookup cityMap row =
     (case (field_value row ''notation'', field_value row ''name'') of
        (Val n, Val nm) \<Rightarrow>
          if n = [] \<or> nm = [] then Inr cityMap
          else
            (let fresh = \<lparr>notation_m = n, name_m = nm,
                          belfiore_m = (if truthy_value (plain_get belfioreLookup n)
                                        then or_null (plain_get belfioreLookup n) else None)\<rparr>
             in case plain_get cityMap n of
                  Val (Own existing) \<Rightarrow>
                    if length nm > length (name_m existing) then Inr (obj_set n fresh cityMap)
                    else Inr cityMap
                | Val (Builtin f) \<Rightarrow>
                    if length nm > length f then Inr (obj_set n fresh cityMap) else Inr cityMap
                | Val ObjectPrototype \<Rightarrow> Inl length_of_undefined
                | _ \<Rightarrow> Inr (obj_set n fresh cityMap))
      | _ \<Rightarrow> Inr cityMap)"

definition build_cityMap ::
  "(string \<times> string) list \<Rightarrow> SparqlResult \<Rightarrow> js_error + (string \<times> Municipality) list" where
  "build_cityMap belfioreLookup namesResult =
     fold_try (cityMap_step belfioreLookup) [] (rows_of namesResult)"

text \<open>
  \<^verbatim>\<open>xs.sort(cmp)\<close>: a stable sort by the comparator. The comparator of the source is
  \<^verbatim>\<open>localeCompare\<close> on the notations; the collation is the engine's and is a parameter
  here.
\<close>

fun insert_by :: "('a \<Rightarrow> 'a \<Rightarrow> int) \<Rightarrow> 'a \<Rightarrow> 'a list \<Rightarrow> 'a list" where
  "insert_by cmp x [] = [x]"
| "insert_by cmp x (y # ys) = (if cmp x y \<le> 0 then x # y # ys else y # insert_by cmp x ys)"

definition array_sort :: "('a \<Rightarrow> 'a \<Rightarrow> int) \<Rightarrow> 'a list \<Rightarrow> 'a list" where
  "array_sort cmp xs = foldr (insert_by cmp) xs []"

text \<open>
  The two forms of the list. A cell of the table is \<^verbatim>\<open>m.notation\<close>, \<^verbatim>\<open>m.name\<close> or
  \<^verbatim>\<open>m.belfiore ?? null\<close>; \<open>None\<close> is \<^verbatim>\<open>null\<close>.
\<close>

datatype MunicipalityList =
    MunicipalityTable "string list" "string property_value option list list"
  | MunicipalityRecords "Municipality list"

record ListMunicipalitiesData =
  municipalities :: MunicipalityList
  pagination_m :: PaginationInfo

definition sorted_municipalities ::
  "(string \<Rightarrow> string \<Rightarrow> int) \<Rightarrow> SparqlResult \<Rightarrow> SparqlResult \<Rightarrow> js_error + Municipality list" where
  "sorted_municipalities localeCompare namesResult belfioreResult =
     (let belfioreLookup = build_lookup ''belfiore'' belfioreResult
      in case build_cityMap belfioreLookup namesResult of
           Inl e \<Rightarrow> Inl e
         | Inr cityMap \<Rightarrow>
             Inr (array_sort (\<lambda>a b. localeCompare (notation_m a) (notation_m b))
                    (Object_values cityMap)))"

text \<open>
  The handler after its three queries have answered (lines 1696 to 1735); \<open>lim\<close> and
  \<open>off\<close> are the caller's \<^verbatim>\<open>limit\<close> and \<^verbatim>\<open>offset\<close>, and \<^verbatim>\<open>safeLimit\<close> is
  \<^verbatim>\<open>Math.min(limit, 500)\<close> (line 1650). \<open>Inl\<close> is the error that the handler throws.
\<close>

definition list_municipalities_data ::
  "(string \<Rightarrow> string \<Rightarrow> int) \<Rightarrow> int \<Rightarrow> int \<Rightarrow> SparqlResult \<Rightarrow> SparqlResult \<Rightarrow> SparqlResult
     \<Rightarrow> js_error + ListMunicipalitiesData" where
  "list_municipalities_data localeCompare lim off namesResult belfioreResult countResult =
     (case sorted_municipalities localeCompare namesResult belfioreResult of
        Inl e \<Rightarrow> Inl e
      | Inr ms \<Rightarrow>
          (let safeLimit = min lim 500;
               tot = count_total countResult;
               cnt = length ms
           in Inr \<lparr>municipalities =
                     (if cnt > 5
                      then MunicipalityTable [''notation'', ''name'', ''belfiore'']
                             (map (\<lambda>m. [Some (Own (notation_m m)), Some (Own (name_m m)),
                                         belfiore_m m]) ms)
                      else MunicipalityRecords ms),
                   pagination_m = \<lparr>total_p = tot, count = cnt, offset = off,
                                   has_more = less_number (off + safeLimit) tot,
                                   next_offset = (if less_number (off + safeLimit) tot
                                                  then Some (off + safeLimit) else None)\<rparr>\<rparr>))"

definition list_municipalities_result ::
  "(string \<Rightarrow> string \<Rightarrow> int) \<Rightarrow> int \<Rightarrow> int \<Rightarrow> SparqlResult \<Rightarrow> SparqlResult \<Rightarrow> SparqlResult
     \<Rightarrow> js_error + ListMunicipalitiesData ToolResult" where
  "list_municipalities_result localeCompare lim off namesResult belfioreResult countResult =
     (case list_municipalities_data localeCompare lim off namesResult belfioreResult countResult of
        Inl e \<Rightarrow> Inl e
      | Inr d \<Rightarrow> Inr (ToolSuccess d (Some (count (pagination_m d)))))"

text \<open>
  \<^verbatim>\<open>list_provinces\<close> (lines 1850 to 1891). A stored record holds under \<^verbatim>\<open>sigla\<close> and
  \<^verbatim>\<open>metro\<close> what \<^verbatim>\<open>siglaLookup[notation]\<close> and \<^verbatim>\<open>metroLookup[notation]\<close> answered, and
  \<^verbatim>\<open>null\<close> (\<open>None\<close>) when they answered \<^verbatim>\<open>undefined\<close>. The deduplication loop reads
  \<^verbatim>\<open>provMap[notation]\<close> as the loop of \<^verbatim>\<open>list_municipalities\<close> reads \<^verbatim>\<open>cityMap[notation]\<close>.
\<close>

record Province =
  notation_p :: string
  name_p :: string
  sigla_p :: "string property_value option"
  metro_p :: "string property_value option"

definition provMap_step ::
  "(string \<times> string) list \<Rightarrow> (string \<times> string) list \<Rightarrow> (string \<times> Province) list
     \<Rightarrow> SparqlBinding \<Rightarrow> js_error + (string \<times> Province) list" where
  "provMap_step siglaLookup metroLookup provMap row =
     (case (field_value row ''notation'', field_value row ''name'') of
        (Val n, Val nm) \<Rightarrow>
          if n = [] \<or> nm = [] then Inr provMap
          else
            (let fresh = \<lparr>notation_p = n, name_p = nm,
                          sigla_p = or_null (plain_get siglaLookup n),
                          metro_p = or_null (plain_get metroLookup n)\<rparr>
             in case plain_get provMap n of
                  Val (Own existing) \<Rightarrow>
                    if length nm > length (name_p existing) then Inr (obj_set n fresh provMap)
                    else Inr provMap
                | Val (Builtin f) \<Rightarrow>
                    if length nm > length f then Inr (obj_set n fresh provMap) else Inr provMap
                | Val ObjectPrototype \<Rightarrow> Inl length_of_undefined
                | _ \<Rightarrow> Inr (obj_set n fresh provMap))
      | _ \<Rightarrow> Inr provMap)"

definition build_provMap ::
  "(string \<times> string) list \<Rightarrow> (string \<times> string) list \<Rightarrow> SparqlResult
     \<Rightarrow> js_error + (string \<times> Province) list" where
  "build_provMap siglaLookup metroLookup namesResult =
     fold_try (provMap_step siglaLookup metroLookup) [] (rows_of namesResult)"

datatype ProvinceList =
    ProvinceTable "string list" "string property_value option list list"
  | ProvinceRecords "Province list"

definition sorted_provinces ::
  "(string \<Rightarrow> string \<Rightarrow> int) \<Rightarrow> SparqlResult \<Rightarrow> SparqlResult \<Rightarrow> SparqlResult
     \<Rightarrow> js_error + Province list" where
  "sorted_provinces localeCompare namesResult siglaResult metroResult =
     (let siglaLookup = build_lookup ''sigla'' siglaResult;
          metroLookup = build_lookup ''metro'' metroResult
      in case build_provMap siglaLookup metroLookup namesResult of
           Inl e \<Rightarrow> Inl e
         | Inr provMap \<Rightarrow>
             Inr (array_sort (\<lambda>a b. localeCompare (notation_p a) (notation_p b))
                    (Object_values provMap)))"

definition list_provinces_result ::
  "(string \<Rightarrow> string \<Rightarrow> int) \<Rightarrow> SparqlResult \<Rightarrow> SparqlResult \<Rightarrow> SparqlResult
     \<Rightarrow> js_error + ProvinceList ToolResult" where
  "list_provinces_result localeCompare namesResult siglaResult metroResult =
     (case sorted_provinces localeCompare namesResult siglaResult metroResult of
        Inl e \<Rightarrow> Inl e
      | Inr provinces \<Rightarrow>
          (let cnt = length provinces
           in Inr (ToolSuccess
                     (if cnt > 5
                      then ProvinceTable [''notation'', ''name'', ''sigla'', ''metro'']
                             (map (\<lambda>p. [Some (Own (notation_p p)), Some (Own (name_p p)),
                                         sigla_p p, metro_p p])
                                provinces)
                      else ProvinceRecords provinces)
                     (Some cnt))))"

subsection \<open>Pagination: what the specification asks and what the handlers compute\<close>

text \<open>
  The invariant of the specification's data model, in its words: \<^verbatim>\<open>total >= count\<close>,
  \<^verbatim>\<open>has_more == (offset + count < total)\<close>, and \<^verbatim>\<open>next_offset == offset + count\<close> when
  \<^verbatim>\<open>has_more\<close>, else \<^verbatim>\<open>null\<close>.
\<close>

definition at_least :: "number \<Rightarrow> nat \<Rightarrow> bool" where
  "at_least t c = (case t of Num n \<Rightarrow> int c \<le> n | NaN \<Rightarrow> False)"

definition pagination_invariant :: "PaginationInfo \<Rightarrow> bool" where
  "pagination_invariant p =
     (at_least (total_p p) (count p) \<and>
      has_more p = less_number (offset p + int (count p)) (total_p p) \<and>
      next_offset p = (if has_more p then Some (offset p + int (count p)) else None))"

text \<open>Example responses: rows without a \<^verbatim>\<open>head\<close>, as the handlers never read it.\<close>

definition bare_result :: "SparqlBinding list \<Rightarrow> SparqlResult" where
  "bare_result bs = \<lparr>head = Undefined, results = Val \<lparr>bindings = Val bs\<rparr>\<rparr>"

definition two_titles :: SparqlResult where
  "two_titles = bare_result
     [[(''dataset'', lit ''http://d/1''), (''label'', lit ''Uno'')],
      [(''dataset'', lit ''http://d/1''), (''label'', lit ''One'')]]"

definition total_of :: "string \<Rightarrow> SparqlResult" where
  "total_of n = bare_result [[(''total'', lit n)]]"

definition roma_rows :: SparqlResult where
  "roma_rows = bare_result
     [[(''notation'', lit ''060''), (''name'', lit ''Roma'')],
      [(''notation'', lit ''060''), (''name'', lit ''Roma Capitale'')]]"

definition no_collation :: "string \<Rightarrow> string \<Rightarrow> int" where
  "no_collation a b = 0"

text \<open>
  What \<^verbatim>\<open>list_municipalities\<close> answers for the two rows of \<open>roma_rows\<close>, no Belfiore code,
  a total of 45, page size 50 and offset 0.
\<close>

definition roma_page :: ListMunicipalitiesData where
  "roma_page =
     \<lparr>municipalities =
        MunicipalityRecords [\<lparr>notation_m = ''060'', name_m = ''Roma Capitale'', belfiore_m = None\<rparr>],
      pagination_m = \<lparr>total_p = Num 45, count = 1, offset = 0, has_more = False,
                      next_offset = None\<rparr>\<rparr>"

lemma count_total_total_of:
  "count_total (total_of ''1'') = Num 1" "count_total (total_of ''45'') = Num 45"
  by (simp_all add: count_total_def total_of_def bare_result_def opt_chain_simps array_at_def
      field_value_def obj_get_def lit_def or_default_def parseInt_def is_space_def is_digit_def
      decimal_value_def digit_value_def)

lemma inherited_060: "inherited ''060'' = Undefined"
  by (simp add: inherited_def Object_prototype_functions_def)

lemma roma_cityMap:
  "build_cityMap [] roma_rows
     = Inr [(''060'', \<lparr>notation_m = ''060'', name_m = ''Roma Capitale'', belfiore_m = None\<rparr>)]"
  by (simp add: build_cityMap_def rows_of_def roma_rows_def bare_result_def opt_chain_simps
      or_default_def cityMap_step_def field_value_def obj_get_def lit_def truthy_value_def
      plain_get_def inherited_060 or_null_def Let_def)

lemma roma_sorted:
  "sorted_municipalities no_collation roma_rows (bare_result [])
     = Inr [\<lparr>notation_m = ''060'', name_m = ''Roma Capitale'', belfiore_m = None\<rparr>]"
proof -
  have "build_lookup ''belfiore'' (bare_result []) = []"
    by (simp add: build_lookup_def rows_of_def bare_result_def opt_chain_simps or_default_def)
  then show ?thesis
    by (simp add: sorted_municipalities_def roma_cityMap array_sort_def Object_values_def)
qed

lemma roma_data:
  "list_municipalities_data no_collation 50 0 roma_rows (bare_result []) (total_of ''45'')
     = Inr roma_page"
  by (simp add: list_municipalities_data_def roma_sorted count_total_total_of roma_page_def
      less_number_def Let_def)

text \<open>
  Claim C4 fails as stated. With one dataset that has two titles, \<^verbatim>\<open>list_datasets\<close>
  returns two rows while the count query answers 1: \<^verbatim>\<open>total >= count\<close> does not hold.
  With Belfiore codes, \<^verbatim>\<open>list_municipalities\<close> answers \<^verbatim>\<open>has_more = false\<close> for a page
  of one record at offset 0, page size 50 and total 45, where \<^verbatim>\<open>offset + count < total\<close>.
\<close>

theorem pagination_counterexample:
  "\<not> pagination_invariant (pagination (list_datasets_data 0 two_titles (total_of ''1''))) \<and>
   list_municipalities_data no_collation 50 0 roma_rows (bare_result []) (total_of ''45'')
     = Inr roma_page \<and>
   \<not> pagination_invariant (pagination_m roma_page)"
proof (intro conjI)
  have "binding_count two_titles = 2"
    by (simp add: binding_count_def two_titles_def bare_result_def opt_chain_simps or_default_def)
  then show "\<not> pagination_invariant (pagination (list_datasets_data 0 two_titles (total_of ''1'')))"
    by (simp add: pagination_invariant_def list_datasets_data_def Let_def count_total_total_of
        at_least_def)
next
  show "list_municipalities_data no_collation 50 0 roma_rows (bare_result []) (total_of ''45'')
          = Inr roma_page"
    by (rule roma_data)
next
  show "\<not> pagination_invariant (pagination_m roma_page)"
    by (simp add: pagination_invariant_def roma_page_def at_least_def less_number_def)
qed

text \<open>
  Claim C4 as amended. \<^verbatim>\<open>list_datasets\<close> reports the total of its count query, the
  number of rows and the caller's offset, with \<^verbatim>\<open>has_more = (offset + count < total)\<close> and
  \<^verbatim>\<open>next_offset = offset + count\<close> when \<^verbatim>\<open>has_more\<close>, else null. \<^verbatim>\<open>list_municipalities\<close>
  with Belfiore codes, whenever it returns data, reports the number of deduplicated
  records as \<^verbatim>\<open>count\<close> and computes \<^verbatim>\<open>has_more\<close> and \<^verbatim>\<open>next_offset\<close> from the page size
  \<^verbatim>\<open>min(limit, 500)\<close> in place of \<^verbatim>\<open>count\<close>. Nothing relates \<^verbatim>\<open>total\<close> to \<^verbatim>\<open>count\<close>.
\<close>

theorem pagination_as_computed:
  "(let p = pagination (list_datasets_data off dataResult countResult) in
      total_p p = count_total countResult \<and> count p = binding_count dataResult \<and> offset p = off \<and>
      has_more p = less_number (offset p + int (count p)) (total_p p) \<and>
      next_offset p = (if has_more p then Some (offset p + int (count p)) else None)) \<and>
   (list_municipalities_data lc lim off namesResult belfioreResult countResult = Inr d \<longrightarrow>
      (let q = pagination_m d in
         total_p q = count_total countResult \<and>
         (\<exists>ms. sorted_municipalities lc namesResult belfioreResult = Inr ms \<and>
               count q = length ms) \<and>
         offset q = off \<and>
         has_more q = less_number (offset q + min lim 500) (total_p q) \<and>
         next_offset q = (if has_more q then Some (offset q + min lim 500) else None)))"
  by (auto simp: list_datasets_data_def list_municipalities_data_def Let_def split: sum.splits)

theorem pagination_as_computed_witness:
  "list_municipalities_data no_collation 50 0 roma_rows (bare_result []) (total_of ''45'')
     = Inr roma_page \<and>
   total_p (pagination_m roma_page) = Num 45 \<and>
   count (pagination_m roma_page) = 1 \<and>
   offset (pagination_m roma_page) = 0 \<and>
   has_more (pagination_m roma_page) = less_number 50 (Num 45) \<and>
   next_offset (pagination_m roma_page) = None"
  using pagination_as_computed
          [of 0 two_titles "total_of ''45''" no_collation 50 roma_rows "bare_result []" roma_page]
    roma_data
  by (simp add: Let_def count_total_total_of roma_sorted less_number_def)

subsection \<open>Deduplication keeps the first longest name of each key\<close>

text \<open>
  The natural key and the primary value of a row of the primary query, when the row has
  both (the loop skips a row that lacks one, or has it empty), and the primary values seen
  under a key, in row order.
\<close>

definition primary_entry :: "SparqlBinding \<Rightarrow> (string \<times> string) option" where
  "primary_entry row =
     (case (field_value row ''notation'', field_value row ''name'') of
        (Val n, Val nm) \<Rightarrow> if n = [] \<or> nm = [] then None else Some (n, nm)
      | _ \<Rightarrow> None)"

definition names_for :: "string \<Rightarrow> SparqlBinding list \<Rightarrow> string list" where
  "names_for k rows =
     List.map_filter
       (\<lambda>row. case primary_entry row of
                 Some (n, nm) \<Rightarrow> if n = k then Some nm else None
               | None \<Rightarrow> None)
       rows"

text \<open>
  \<open>b\<close> is the longest of the candidates \<open>ns\<close>, the first seen among the longest: it is a
  candidate, no candidate is longer, and every candidate before its first occurrence is
  strictly shorter.
\<close>

definition first_longest :: "string \<Rightarrow> string list \<Rightarrow> bool" where
  "first_longest b ns =
     (b \<in> set ns \<and> list_all (\<lambda>q. length q \<le> length b) ns \<and>
      list_all (\<lambda>p. length p < length b) (takeWhile (\<lambda>x. x \<noteq> b) ns))"

text \<open>
  The rows of the specification's examples and two rows with the same name under
  keys that a plain object inherits.
\<close>

definition constructor_rows :: SparqlResult where
  "constructor_rows = bare_result
     [[(''notation'', lit ''060''), (''name'', lit ''Roma'')],
      [(''notation'', lit ''constructor''), (''name'', lit ''Roma'')]]"

definition proto_rows :: SparqlResult where
  "proto_rows = bare_result
     [[(''notation'', lit ''060''), (''name'', lit ''Roma'')],
      [(''notation'', lit ''__proto__''), (''name'', lit ''Roma'')]]"

text \<open>
  The keys that a plain object inherits, and the rows whose key is none of them.
\<close>

definition inherited_name :: "string \<Rightarrow> bool" where
  "inherited_name k = (k = ''__proto__'' \<or> k \<in> set (map fst Object_prototype_functions))"

definition ordinary_keys :: "SparqlBinding list \<Rightarrow> bool" where
  "ordinary_keys rows =
     list_all (\<lambda>row. case primary_entry row of
                       Some (n, nm) \<Rightarrow> \<not> inherited_name n
                     | None \<Rightarrow> True) rows"

text \<open>
  The two deduplication loops on a dictionary without inherited members; \<open>mk\<close> builds the
  record they store.
\<close>

definition keep_longest_step ::
  "('r \<Rightarrow> string) \<Rightarrow> (string \<Rightarrow> string \<Rightarrow> 'r) \<Rightarrow> (string \<times> 'r) list \<Rightarrow> SparqlBinding
     \<Rightarrow> (string \<times> 'r) list" where
  "keep_longest_step name_of mk m row =
     (case primary_entry row of
        None \<Rightarrow> m
      | Some (n, nm) \<Rightarrow>
          (case map_of m n of
             Some existing \<Rightarrow>
               if length nm > length (name_of existing) then obj_set n (mk n nm) m else m
           | None \<Rightarrow> obj_set n (mk n nm) m))"

lemma plain_get_ordinary:
  assumes "\<not> inherited_name k"
  shows "plain_get obj k = (case map_of obj k of Some v \<Rightarrow> Val (Own v) | None \<Rightarrow> Undefined)"
proof -
  from assms have "map_of Object_prototype_functions k = None" and "k \<noteq> ''__proto__''"
    by (simp_all add: inherited_name_def map_of_eq_None_iff)
  then show ?thesis
    by (simp add: plain_get_def inherited_def split: option.split)
qed

lemma fold_try_total:
  assumes "\<And>s x. x \<in> set xs \<Longrightarrow> f s x = Inr (g s x)"
  shows "fold_try f s xs = Inr (foldl g s xs)"
  using assms by (induction xs arbitrary: s) simp_all

lemma ordinary_keys_entry:
  assumes "ordinary_keys rows" and "row \<in> set rows" and "primary_entry row = Some (n, nm)"
  shows "\<not> inherited_name n"
proof -
  from assms(1,2)
  have "case primary_entry row of Some (n, nm) \<Rightarrow> \<not> inherited_name n | None \<Rightarrow> True"
    by (simp add: ordinary_keys_def list_all_iff)
  with assms(3) show ?thesis by simp
qed

lemma cityMap_step_ordinary:
  assumes "\<And>n nm. primary_entry row = Some (n, nm) \<Longrightarrow> \<not> inherited_name n"
  shows "cityMap_step belfioreLookup m row =
     Inr (keep_longest_step name_m
            (\<lambda>n nm. \<lparr>notation_m = n, name_m = nm,
                      belfiore_m = (if truthy_value (plain_get belfioreLookup n)
                                    then or_null (plain_get belfioreLookup n) else None)\<rparr>)
            m row)"
proof (cases "primary_entry row")
  case None
  then show ?thesis
    by (auto simp: cityMap_step_def keep_longest_step_def primary_entry_def
        split: nullable.splits if_splits)
next
  case (Some e)
  obtain n nm where e: "e = (n, nm)" by (cases e)
  with Some assms have "\<not> inherited_name n" by simp
  then have g: "plain_get m n = (case map_of m n of Some v \<Rightarrow> Val (Own v) | None \<Rightarrow> Undefined)"
    by (rule plain_get_ordinary)
  from Some e have f: "field_value row ''notation'' = Val n" "field_value row ''name'' = Val nm"
    "n \<noteq> []" "nm \<noteq> []"
    by (auto simp: primary_entry_def split: nullable.splits if_splits)
  show ?thesis
    using Some e
    by (simp add: cityMap_step_def keep_longest_step_def f g Let_def split: option.split)
qed

lemma provMap_step_ordinary:
  assumes "\<And>n nm. primary_entry row = Some (n, nm) \<Longrightarrow> \<not> inherited_name n"
  shows "provMap_step siglaLookup metroLookup m row =
     Inr (keep_longest_step name_p
            (\<lambda>n nm. \<lparr>notation_p = n, name_p = nm,
                      sigla_p = or_null (plain_get siglaLookup n),
                      metro_p = or_null (plain_get metroLookup n)\<rparr>)
            m row)"
proof (cases "primary_entry row")
  case None
  then show ?thesis
    by (auto simp: provMap_step_def keep_longest_step_def primary_entry_def
        split: nullable.splits if_splits)
next
  case (Some e)
  obtain n nm where e: "e = (n, nm)" by (cases e)
  with Some assms have "\<not> inherited_name n" by simp
  then have g: "plain_get m n = (case map_of m n of Some v \<Rightarrow> Val (Own v) | None \<Rightarrow> Undefined)"
    by (rule plain_get_ordinary)
  from Some e have f: "field_value row ''notation'' = Val n" "field_value row ''name'' = Val nm"
    "n \<noteq> []" "nm \<noteq> []"
    by (auto simp: primary_entry_def split: nullable.splits if_splits)
  show ?thesis
    using Some e
    by (simp add: provMap_step_def keep_longest_step_def f g Let_def split: option.split)
qed

lemma names_for_snoc:
  "names_for k (rows @ [row]) =
     names_for k rows @ (case primary_entry row of
                            Some (n, nm) \<Rightarrow> if n = k then [nm] else []
                          | None \<Rightarrow> [])"
  by (simp add: names_for_def map_filter_def split: option.splits)

lemma first_longest_single: "first_longest b [b]"
  by (simp add: first_longest_def)

lemma first_longest_snoc_keep:
  assumes "first_longest b ns" and "length n \<le> length b"
  shows "first_longest b (ns @ [n])"
proof -
  from assms(1) have "b \<in> set ns" by (simp add: first_longest_def)
  then have "takeWhile (\<lambda>x. x \<noteq> b) (ns @ [n]) = takeWhile (\<lambda>x. x \<noteq> b) ns"
    by (intro takeWhile_append1 [of b]) simp_all
  with assms show ?thesis by (simp add: first_longest_def)
qed

lemma first_longest_snoc_replace:
  assumes "first_longest b ns" and "length b < length n"
  shows "first_longest n (ns @ [n])"
proof -
  from assms have shorter: "list_all (\<lambda>p. length p < length n) ns"
    by (auto simp: first_longest_def list_all_iff)
  then have "n \<notin> set ns" by (auto simp: list_all_iff)
  then have "takeWhile (\<lambda>x. x \<noteq> n) (ns @ [n]) = ns @ takeWhile (\<lambda>x. x \<noteq> n) [n]"
    by (intro takeWhile_append2) auto
  then have "takeWhile (\<lambda>x. x \<noteq> n) (ns @ [n]) = ns" by simp
  with shorter show ?thesis
    by (auto simp: first_longest_def list_all_iff less_imp_le)
qed

lemma keep_longest_step_apply:
  "keep_longest_step name_of mk m row =
     (case primary_entry row of
        None \<Rightarrow> m
      | Some (n, nm) \<Rightarrow>
          (case map_of m n of
             Some existing \<Rightarrow> if length nm > length (name_of existing) then obj_set n (mk n nm) m else m
           | None \<Rightarrow> obj_set n (mk n nm) m))"
  by (simp add: keep_longest_step_def)

lemma keep_longest_invariant:
  assumes name_mk: "\<And>n nm. name_of (mk n nm) = nm"
  shows "distinct (map fst (foldl (keep_longest_step name_of mk) [] rows)) \<and>
         (\<forall>k. case map_of (foldl (keep_longest_step name_of mk) [] rows) k of
                None \<Rightarrow> names_for k rows = []
              | Some r \<Rightarrow> (\<exists>nm. r = mk k nm \<and> first_longest nm (names_for k rows)))"
proof (induction rows rule: rev_induct)
  case Nil
  show ?case by (simp add: names_for_def map_filter_def)
next
  case (snoc row rows)
  let ?m = "foldl (keep_longest_step name_of mk) [] rows"
  from snoc have d: "distinct (map fst ?m)"
    and inv: "\<And>k. case map_of ?m k of
                None \<Rightarrow> names_for k rows = []
              | Some r \<Rightarrow> (\<exists>nm. r = mk k nm \<and> first_longest nm (names_for k rows))"
    by blast+
  show ?case
  proof (cases "primary_entry row")
    case None
    then have step: "foldl (keep_longest_step name_of mk) [] (rows @ [row]) = ?m"
      by (simp add: keep_longest_step_apply [of name_of mk ?m row])
    show ?thesis
      unfolding step
    proof (intro conjI allI)
      show "distinct (map fst ?m)" by (rule d)
    next
      fix k
      show "case map_of ?m k of
              None \<Rightarrow> names_for k (rows @ [row]) = []
            | Some r \<Rightarrow> (\<exists>nm. r = mk k nm \<and> first_longest nm (names_for k (rows @ [row])))"
        using inv [of k] None by (simp add: names_for_snoc split: option.splits)
    qed
  next
    case (Some e)
    obtain n nm where e: "e = (n, nm)" by (cases e)
    show ?thesis
    proof (cases "map_of ?m n")
      case None
      with inv [of n] have empty: "names_for n rows = []" by simp
      have step: "foldl (keep_longest_step name_of mk) [] (rows @ [row]) = obj_set n (mk n nm) ?m"
        using Some e None by (simp add: keep_longest_step_apply [of name_of mk ?m row])
      show ?thesis
        unfolding step
      proof (intro conjI allI)
        show "distinct (map fst (obj_set n (mk n nm) ?m))" using d by (rule distinct_obj_set)
      next
        fix k
        show "case map_of (obj_set n (mk n nm) ?m) k of
                None \<Rightarrow> names_for k (rows @ [row]) = []
              | Some r \<Rightarrow> (\<exists>nm. r = mk k nm \<and> first_longest nm (names_for k (rows @ [row])))"
        proof (cases "k = n")
          case True
          then show ?thesis
            using empty Some e
            by (auto simp: map_of_obj_set names_for_snoc intro!: exI [of _ nm] first_longest_single)
        next
          case False
          then show ?thesis
            using inv [of k] Some e by (simp add: map_of_obj_set names_for_snoc split: option.splits)
        qed
      qed
    next
      case (Some existing)
      note ex = this
      with inv [of n] obtain old where old: "existing = mk n old" "first_longest old (names_for n rows)"
        by auto
      have len: "length (name_of existing) = length old" using old(1) name_mk by simp
      show ?thesis
      proof (cases "length nm > length old")
        case True
        have step: "foldl (keep_longest_step name_of mk) [] (rows @ [row]) = obj_set n (mk n nm) ?m"
          using \<open>primary_entry row = Some e\<close> e ex True len by (simp add: keep_longest_step_apply [of name_of mk ?m row])
        show ?thesis
          unfolding step
        proof (intro conjI allI)
          show "distinct (map fst (obj_set n (mk n nm) ?m))" using d by (rule distinct_obj_set)
        next
          fix k
          show "case map_of (obj_set n (mk n nm) ?m) k of
                  None \<Rightarrow> names_for k (rows @ [row]) = []
                | Some r \<Rightarrow> (\<exists>nm. r = mk k nm \<and> first_longest nm (names_for k (rows @ [row])))"
          proof (cases "k = n")
            case True
            then show ?thesis
              using \<open>primary_entry row = Some e\<close> e old(2) \<open>length nm > length old\<close>
              by (auto simp: map_of_obj_set names_for_snoc intro!: exI [of _ nm] first_longest_snoc_replace)
          next
            case False
            then show ?thesis
              using inv [of k] \<open>primary_entry row = Some e\<close> e
              by (simp add: map_of_obj_set names_for_snoc split: option.splits)
          qed
        qed
      next
        case False
        have step: "foldl (keep_longest_step name_of mk) [] (rows @ [row]) = ?m"
          using \<open>primary_entry row = Some e\<close> e ex False len by (simp add: keep_longest_step_apply [of name_of mk ?m row])
        show ?thesis
          unfolding step
        proof (intro conjI allI)
          show "distinct (map fst ?m)" by (rule d)
        next
          fix k
          show "case map_of ?m k of
                  None \<Rightarrow> names_for k (rows @ [row]) = []
                | Some r \<Rightarrow> (\<exists>nm. r = mk k nm \<and> first_longest nm (names_for k (rows @ [row])))"
          proof (cases "k = n")
            case True
            then show ?thesis
              using \<open>primary_entry row = Some e\<close> e ex old False
              by (auto simp: names_for_snoc intro!: exI [of _ old] first_longest_snoc_keep)
          next
            case False
            then show ?thesis
              using inv [of k] \<open>primary_entry row = Some e\<close> e
              by (simp add: names_for_snoc split: option.splits)
          qed
        qed
      qed
    qed
  qed
qed

lemma set_insert_by: "set (insert_by cmp x ys) = insert x (set ys)"
  by (induction ys) auto

lemma length_insert_by: "length (insert_by cmp x ys) = Suc (length ys)"
  by (induction ys) auto

lemma set_array_sort: "set (array_sort cmp xs) = set xs"
  unfolding array_sort_def by (induction xs) (simp_all add: set_insert_by)

lemma length_array_sort: "length (array_sort cmp xs) = length xs"
  unfolding array_sort_def by (induction xs) (simp_all add: length_insert_by)

lemma array_sort_Cons: "array_sort cmp (x # xs) = insert_by cmp x (array_sort cmp xs)"
  by (simp add: array_sort_def)

lemma distinct_map_insert_by:
  "distinct (map f (insert_by cmp x ys)) = (f x \<notin> f ` set ys \<and> distinct (map f ys))"
  by (induction ys) (auto simp: set_insert_by)

lemma distinct_map_array_sort: "distinct (map f (array_sort cmp xs)) = distinct (map f xs)"
proof (induction xs)
  case Nil
  show ?case by (simp add: array_sort_def)
next
  case (Cons x xs)
  then show ?case
    by (simp add: array_sort_Cons distinct_map_insert_by set_array_sort)
qed

lemma keep_longest_survivor:
  assumes name_mk: "\<And>n nm. name_of (mk n nm) = nm"
    and key_mk: "\<And>n nm. key_of (mk n nm) = n"
  shows "distinct (map fst (foldl (keep_longest_step name_of mk) [] rows)) \<and>
         (case map_of (foldl (keep_longest_step name_of mk) [] rows) k of
            None \<Rightarrow> names_for k rows = []
          | Some r \<Rightarrow> key_of r = k \<and> first_longest (name_of r) (names_for k rows))"
proof -
  let ?m = "foldl (keep_longest_step name_of mk) [] rows"
  from keep_longest_invariant [of name_of mk rows, OF name_mk]
  have d: "distinct (map fst ?m)"
    and inv: "case map_of ?m k of
                None \<Rightarrow> names_for k rows = []
              | Some r \<Rightarrow> (\<exists>nm. r = mk k nm \<and> first_longest nm (names_for k rows))"
    by blast+
  show ?thesis
  proof (cases "map_of ?m k")
    case None
    with d inv show ?thesis by simp
  next
    case (Some r)
    with inv obtain nm where "r = mk k nm" "first_longest nm (names_for k rows)" by auto
    with d Some show ?thesis by (simp add: name_mk key_mk)
  qed
qed

lemma keep_longest_keys:
  assumes name_mk: "\<And>n nm. name_of (mk n nm) = nm"
    and key_mk: "\<And>n nm. key_of (mk n nm) = n"
  shows "map key_of (Object_values (foldl (keep_longest_step name_of mk) [] rows))
           = map fst (foldl (keep_longest_step name_of mk) [] rows)"
proof -
  let ?m = "foldl (keep_longest_step name_of mk) [] rows"
  have "key_of (snd z) = fst z" if "z \<in> set ?m" for z
  proof -
    obtain k c where z: "z = (k, c)" by (cases z)
    from keep_longest_survivor [of name_of mk key_of rows k, OF name_mk key_mk]
    have d: "distinct (map fst ?m)"
      and inv: "case map_of ?m k of
                  None \<Rightarrow> names_for k rows = []
                | Some r \<Rightarrow> key_of r = k \<and> first_longest (name_of r) (names_for k rows)"
      by blast+
    from d that z have "map_of ?m k = Some c" by simp
    with inv z show ?thesis by simp
  qed
  then show ?thesis
    by (simp add: Object_values_def)
qed

text \<open>
  When no key is a name that a plain object inherits, the loop of \<^verbatim>\<open>list_municipalities\<close>
  does not throw, and for every natural key \<open>k\<close> the map that it builds holds at most one
  record (its keys are distinct): none when no row carries a primary value under \<open>k\<close>, and
  otherwise the record of \<open>k\<close> whose name is the longest of the names seen under \<open>k\<close>, the
  first seen among the longest. The sorted output list holds the records of the map, each
  once. The same holds for the loop of \<^verbatim>\<open>list_provinces\<close>.
\<close>

lemma build_cityMap_ordinary:
  assumes "ordinary_keys (rows_of namesResult)"
  shows "build_cityMap belfioreLookup namesResult =
     Inr (foldl (keep_longest_step name_m
                   (\<lambda>n nm. \<lparr>notation_m = n, name_m = nm,
                             belfiore_m = (if truthy_value (plain_get belfioreLookup n)
                                           then or_null (plain_get belfioreLookup n) else None)\<rparr>))
            [] (rows_of namesResult))"
  unfolding build_cityMap_def
proof (rule fold_try_total)
  fix s x
  assume "x \<in> set (rows_of namesResult)"
  then have "\<And>n nm. primary_entry x = Some (n, nm) \<Longrightarrow> \<not> inherited_name n"
    using ordinary_keys_entry [OF assms] by blast
  then show "cityMap_step belfioreLookup s x =
     Inr (keep_longest_step name_m
            (\<lambda>n nm. \<lparr>notation_m = n, name_m = nm,
                      belfiore_m = (if truthy_value (plain_get belfioreLookup n)
                                    then or_null (plain_get belfioreLookup n) else None)\<rparr>)
            s x)"
    by (rule cityMap_step_ordinary)
qed

lemma build_provMap_ordinary:
  assumes "ordinary_keys (rows_of namesResult)"
  shows "build_provMap siglaLookup metroLookup namesResult =
     Inr (foldl (keep_longest_step name_p
                   (\<lambda>n nm. \<lparr>notation_p = n, name_p = nm,
                             sigla_p = or_null (plain_get siglaLookup n),
                             metro_p = or_null (plain_get metroLookup n)\<rparr>))
            [] (rows_of namesResult))"
  unfolding build_provMap_def
proof (rule fold_try_total)
  fix s x
  assume "x \<in> set (rows_of namesResult)"
  then have "\<And>n nm. primary_entry x = Some (n, nm) \<Longrightarrow> \<not> inherited_name n"
    using ordinary_keys_entry [OF assms] by blast
  then show "provMap_step siglaLookup metroLookup s x =
     Inr (keep_longest_step name_p
            (\<lambda>n nm. \<lparr>notation_p = n, name_p = nm,
                      sigla_p = or_null (plain_get siglaLookup n),
                      metro_p = or_null (plain_get metroLookup n)\<rparr>)
            s x)"
    by (rule provMap_step_ordinary)
qed

lemma municipalities_keep_longest:
  assumes "ordinary_keys (rows_of namesResult)"
  shows "\<exists>cityMap ms.
     build_cityMap (build_lookup ''belfiore'' belfioreResult) namesResult = Inr cityMap \<and>
     sorted_municipalities localeCompare namesResult belfioreResult = Inr ms \<and>
     distinct (map fst cityMap) \<and>
     (\<forall>k. case map_of cityMap k of
             None \<Rightarrow> names_for k (rows_of namesResult) = []
           | Some c \<Rightarrow> notation_m c = k \<and>
                       first_longest (name_m c) (names_for k (rows_of namesResult))) \<and>
     set ms = snd ` set cityMap \<and> length ms = length cityMap \<and>
     map notation_m (Object_values cityMap) = map fst cityMap \<and>
     distinct (map notation_m ms)"
proof -
  let ?bl = "build_lookup ''belfiore'' belfioreResult"
  let ?mk = "\<lambda>n nm. \<lparr>notation_m = n, name_m = nm,
                       belfiore_m = (if truthy_value (plain_get ?bl n)
                                     then or_null (plain_get ?bl n) else None)\<rparr>"
  let ?m = "foldl (keep_longest_step name_m ?mk) [] (rows_of namesResult)"
  let ?ms = "array_sort (\<lambda>a b. localeCompare (notation_m a) (notation_m b)) (Object_values ?m)"
  have b: "build_cityMap ?bl namesResult = Inr ?m"
    using assms by (rule build_cityMap_ordinary)
  then have s: "sorted_municipalities localeCompare namesResult belfioreResult = Inr ?ms"
    by (simp add: sorted_municipalities_def)
  have inv: "distinct (map fst ?m) \<and>
     (case map_of ?m k of
        None \<Rightarrow> names_for k (rows_of namesResult) = []
      | Some c \<Rightarrow> notation_m c = k \<and>
                  first_longest (name_m c) (names_for k (rows_of namesResult)))" for k
    by (rule keep_longest_survivor) simp_all
  have keys: "map notation_m (Object_values ?m) = map fst ?m"
    by (rule keep_longest_keys) simp_all
  have "set ?ms = snd ` set ?m" "length ?ms = length ?m"
    by (simp_all add: set_array_sort length_array_sort Object_values_def)
  moreover have "distinct (map notation_m ?ms)"
    using inv by (simp add: distinct_map_array_sort keys)
  ultimately show ?thesis
    using b s inv keys by blast
qed

lemma provinces_keep_longest:
  assumes "ordinary_keys (rows_of namesResult)"
  shows "\<exists>provMap ps.
     build_provMap (build_lookup ''sigla'' siglaResult) (build_lookup ''metro'' metroResult)
       namesResult = Inr provMap \<and>
     sorted_provinces localeCompare namesResult siglaResult metroResult = Inr ps \<and>
     distinct (map fst provMap) \<and>
     (\<forall>k. case map_of provMap k of
             None \<Rightarrow> names_for k (rows_of namesResult) = []
           | Some p \<Rightarrow> notation_p p = k \<and>
                       first_longest (name_p p) (names_for k (rows_of namesResult))) \<and>
     set ps = snd ` set provMap \<and> length ps = length provMap \<and>
     map notation_p (Object_values provMap) = map fst provMap \<and>
     distinct (map notation_p ps)"
proof -
  let ?sl = "build_lookup ''sigla'' siglaResult"
  let ?ml = "build_lookup ''metro'' metroResult"
  let ?mk = "\<lambda>n nm. \<lparr>notation_p = n, name_p = nm,
                       sigla_p = or_null (plain_get ?sl n),
                       metro_p = or_null (plain_get ?ml n)\<rparr>"
  let ?m = "foldl (keep_longest_step name_p ?mk) [] (rows_of namesResult)"
  let ?ps = "array_sort (\<lambda>a b. localeCompare (notation_p a) (notation_p b)) (Object_values ?m)"
  have b: "build_provMap ?sl ?ml namesResult = Inr ?m"
    using assms by (rule build_provMap_ordinary)
  then have s: "sorted_provinces localeCompare namesResult siglaResult metroResult = Inr ?ps"
    by (simp add: sorted_provinces_def)
  have inv: "distinct (map fst ?m) \<and>
     (case map_of ?m k of
        None \<Rightarrow> names_for k (rows_of namesResult) = []
      | Some p \<Rightarrow> notation_p p = k \<and>
                  first_longest (name_p p) (names_for k (rows_of namesResult)))" for k
    by (rule keep_longest_survivor) simp_all
  have keys: "map notation_p (Object_values ?m) = map fst ?m"
    by (rule keep_longest_keys) simp_all
  have "set ?ps = snd ` set ?m" "length ?ps = length ?m"
    by (simp_all add: set_array_sort length_array_sort Object_values_def)
  moreover have "distinct (map notation_p ?ps)"
    using inv by (simp add: distinct_map_array_sort keys)
  ultimately show ?thesis
    using b s inv keys by blast
qed

text \<open>
  The specification's example: key \<^verbatim>\<open>060\<close> seen with \<^verbatim>\<open>Roma\<close> and then \<^verbatim>\<open>Roma Capitale\<close>.
\<close>

lemma roma_keeps_longest:
  "ordinary_keys (rows_of roma_rows) \<and>
   names_for ''060'' (rows_of roma_rows) = [''Roma'', ''Roma Capitale''] \<and>
   first_longest ''Roma Capitale'' (names_for ''060'' (rows_of roma_rows)) \<and>
   sorted_municipalities no_collation roma_rows (bare_result [])
     = Inr [\<lparr>notation_m = ''060'', name_m = ''Roma Capitale'', belfiore_m = None\<rparr>]"
proof -
  have r: "rows_of roma_rows =
      [[(''notation'', lit ''060''), (''name'', lit ''Roma'')],
       [(''notation'', lit ''060''), (''name'', lit ''Roma Capitale'')]]"
    by (simp add: rows_of_def roma_rows_def bare_result_def opt_chain_simps or_default_def)
  have p: "primary_entry [(''notation'', lit ''060''), (''name'', lit nm)]
             = (if nm = [] then None else Some (''060'', nm))" for nm
    by (simp add: primary_entry_def field_value_def obj_get_def opt_chain_simps lit_def)
  have n: "names_for ''060'' (rows_of roma_rows) = [''Roma'', ''Roma Capitale'']"
    by (simp add: r names_for_def map_filter_def p)
  have o: "ordinary_keys (rows_of roma_rows)"
    by (simp add: r ordinary_keys_def p inherited_name_def Object_prototype_functions_def)
  have f: "first_longest ''Roma Capitale'' [''Roma'', ''Roma Capitale'']"
    by (simp add: first_longest_def)
  from o n f roma_sorted show ?thesis by simp
qed

text \<open>
  Claim C7 holds for the keys of the lemmas above, and the code breaks it at the names
  that a plain object inherits. The key \<^verbatim>\<open>constructor\<close> is seen with the name \<^verbatim>\<open>Roma\<close>, yet
  neither \<^verbatim>\<open>list_municipalities\<close> nor \<^verbatim>\<open>list_provinces\<close> returns a record for it:
  \<^verbatim>\<open>cityMap[notation]\<close> answers the function \<^verbatim>\<open>Object\<close>, whose name has 6 characters, and the
  row is taken for a shorter duplicate. With the key \<^verbatim>\<open>__proto__\<close> the loop throws, and
  the tool returns no record at all, not even the one of key \<^verbatim>\<open>060\<close>.
\<close>

theorem reconciler_loses_inherited_keys:
  "names_for ''constructor'' (rows_of constructor_rows) = [''Roma''] \<and>
   sorted_municipalities no_collation constructor_rows (bare_result [])
     = Inr [\<lparr>notation_m = ''060'', name_m = ''Roma'', belfiore_m = None\<rparr>] \<and>
   sorted_provinces no_collation constructor_rows (bare_result []) (bare_result [])
     = Inr [\<lparr>notation_p = ''060'', name_p = ''Roma'', sigla_p = None, metro_p = None\<rparr>] \<and>
   names_for ''__proto__'' (rows_of proto_rows) = [''Roma''] \<and>
   sorted_municipalities no_collation proto_rows (bare_result []) = Inl length_of_undefined \<and>
   sorted_provinces no_collation proto_rows (bare_result []) (bare_result [])
     = Inl length_of_undefined"
proof -
  have l: "build_lookup f (bare_result []) = []" for f
    by (simp add: build_lookup_def rows_of_def bare_result_def opt_chain_simps or_default_def)
  have i: "inherited ''060'' = (Undefined :: 'v property_value nullable)"
    "inherited ''constructor'' = (Val (Builtin ''Object'') :: 'v property_value nullable)"
    "inherited ''__proto__'' = (Val ObjectPrototype :: 'v property_value nullable)"
    by (simp_all add: inherited_def Object_prototype_functions_def)
  have rc: "rows_of constructor_rows =
      [[(''notation'', lit ''060''), (''name'', lit ''Roma'')],
       [(''notation'', lit ''constructor''), (''name'', lit ''Roma'')]]"
    by (simp add: rows_of_def constructor_rows_def bare_result_def opt_chain_simps or_default_def)
  have rp: "rows_of proto_rows =
      [[(''notation'', lit ''060''), (''name'', lit ''Roma'')],
       [(''notation'', lit ''__proto__''), (''name'', lit ''Roma'')]]"
    by (simp add: rows_of_def proto_rows_def bare_result_def opt_chain_simps or_default_def)
  have fv: "field_value [(''notation'', lit n), (''name'', lit nm)] ''notation'' = Val n"
    "field_value [(''notation'', lit n), (''name'', lit nm)] ''name'' = Val nm" for n nm
    by (simp_all add: field_value_def obj_get_def opt_chain_simps lit_def)
  show ?thesis
  proof (intro conjI)
    show "names_for ''constructor'' (rows_of constructor_rows) = [''Roma'']"
      by (simp add: rc names_for_def map_filter_def primary_entry_def fv)
    show "names_for ''__proto__'' (rows_of proto_rows) = [''Roma'']"
      by (simp add: rp names_for_def map_filter_def primary_entry_def fv)
    show "sorted_municipalities no_collation constructor_rows (bare_result [])
            = Inr [\<lparr>notation_m = ''060'', name_m = ''Roma'', belfiore_m = None\<rparr>]"
      by (simp add: sorted_municipalities_def l build_cityMap_def rc cityMap_step_def fv
          plain_get_def i truthy_value_def or_null_def array_sort_def Object_values_def Let_def)
    show "sorted_provinces no_collation constructor_rows (bare_result []) (bare_result [])
            = Inr [\<lparr>notation_p = ''060'', name_p = ''Roma'', sigla_p = None, metro_p = None\<rparr>]"
      by (simp add: sorted_provinces_def l build_provMap_def rc provMap_step_def fv
          plain_get_def i or_null_def array_sort_def Object_values_def Let_def)
    show "sorted_municipalities no_collation proto_rows (bare_result []) = Inl length_of_undefined"
      by (simp add: sorted_municipalities_def l build_cityMap_def rp cityMap_step_def fv
          plain_get_def i truthy_value_def or_null_def Let_def)
    show "sorted_provinces no_collation proto_rows (bare_result []) (bare_result [])
            = Inl length_of_undefined"
      by (simp add: sorted_provinces_def l build_provMap_def rp provMap_step_def fv
          plain_get_def i or_null_def Let_def)
  qed
qed

section \<open>JSON text\<close>

text \<open>
  The values that \<^verbatim>\<open>JSON.parse\<close> returns and \<^verbatim>\<open>JSON.stringify\<close> prints. A number written
  without fraction and exponent is an integer (\<open>JNum\<close>); any other number keeps its
  literal (\<open>JFloat\<close>), since floating point is not modelled. An object is an association
  list in property order.
\<close>

datatype json =
    JNull
  | JBool bool
  | JNum int
  | JFloat string
  | JString string
  | JArray "json list"
  | JObject "(string \<times> json) list"

text \<open>Decimal rendering of a number, as in a template literal and in \<^verbatim>\<open>JSON.stringify\<close>.\<close>

definition digit_char :: "nat \<Rightarrow> char" where
  "digit_char d = ''0123456789'' ! d"

fun show_nat :: "nat \<Rightarrow> string" where
  "show_nat n = (if n < 10 then [digit_char n] else show_nat (n div 10) @ [digit_char (n mod 10)])"

declare show_nat.simps [simp del]

definition show_int :: "int \<Rightarrow> string" where
  "show_int i = (if i < 0 then CHR ''-'' # show_nat (nat (- i)) else show_nat (nat i))"

text \<open>
  \<^verbatim>\<open>JSON.stringify\<close> of a string: the quote, the backslash and the control characters
  are escaped.
\<close>

definition hex_char :: "nat \<Rightarrow> char" where
  "hex_char d = ''0123456789abcdef'' ! d"

definition json_escape_char :: "char \<Rightarrow> string" where
  "json_escape_char c =
     (if c = DQUOTE then [BACKSLASH, DQUOTE]
      else if c = BACKSLASH then [BACKSLASH, BACKSLASH]
      else if c = CHR 0x08 then [BACKSLASH, CHR ''b'']
      else if c = CHR 0x0C then [BACKSLASH, CHR ''f'']
      else if c = LF then [BACKSLASH, CHR ''n'']
      else if c = CR then [BACKSLASH, CHR ''r'']
      else if c = CHR 0x09 then [BACKSLASH, CHR ''t'']
      else if (of_char c :: nat) < 32
      then [BACKSLASH, CHR ''u'', CHR ''0'', CHR ''0'',
            hex_char ((of_char c :: nat) div 16), hex_char ((of_char c :: nat) mod 16)]
      else [c])"

definition json_quote :: "string \<Rightarrow> string" where
  "json_quote s = DQUOTE # concat (map json_escape_char s) @ [DQUOTE]"

text \<open>\<^verbatim>\<open>JSON.stringify(value)\<close> without indentation.\<close>

fun join :: "string \<Rightarrow> string list \<Rightarrow> string" where
  "join sep [] = []"
| "join sep [x] = x"
| "join sep (x # y # ys) = x @ sep @ join sep (y # ys)"

fun JSON_stringify :: "json \<Rightarrow> string" where
  "JSON_stringify JNull = ''null''"
| "JSON_stringify (JBool b) = (if b then ''true'' else ''false'')"
| "JSON_stringify (JNum n) = show_int n"
| "JSON_stringify (JFloat s) = s"
| "JSON_stringify (JString s) = json_quote s"
| "JSON_stringify (JArray xs) = ''['' @ join '','' (map JSON_stringify xs) @ '']''"
| "JSON_stringify (JObject kvs) =
     ''{'' @ join '','' (map (\<lambda>(k, v). json_quote k @ '':'' @ JSON_stringify v) kvs) @ ''}''"

text \<open>
  \<^verbatim>\<open>JSON.parse(text)\<close>: \<open>None\<close> stands for the \<^verbatim>\<open>SyntaxError\<close> it throws. The text is cut
  into tokens by one pass over its characters; \<open>lex_mode\<close> says what the pass is inside
  of (a string with the characters read so far, an escape, the four hexadecimal digits
  of a code-unit escape, a number, or one of the words \<^verbatim>\<open>true\<close>, \<^verbatim>\<open>false\<close>, \<^verbatim>\<open>null\<close>). An escaped
  code unit above 255 is reduced modulo 256.
\<close>

datatype token =
    TLBrace | TRBrace | TLBracket | TRBracket | TColon | TComma
  | TString string | TNumber string | TTrue | TFalse | TNull

datatype lex_mode =
    LTop
  | LStr string
  | LEsc string
  | LUni string nat nat
  | LNum string
  | LWord string

definition is_json_ws :: "char \<Rightarrow> bool" where
  "is_json_ws c = (c = CHR 0x20 \<or> c = CHR 0x09 \<or> c = LF \<or> c = CR)"

definition punct :: "char \<Rightarrow> token option" where
  "punct c =
     (if c = CHR ''{'' then Some TLBrace else if c = CHR ''}'' then Some TRBrace
      else if c = CHR ''['' then Some TLBracket else if c = CHR '']'' then Some TRBracket
      else if c = CHR '':'' then Some TColon else if c = CHR '','' then Some TComma
      else None)"

definition is_lower :: "char \<Rightarrow> bool" where
  "is_lower c = (97 \<le> (of_char c :: nat) \<and> (of_char c :: nat) \<le> 122)"

definition is_number_char :: "char \<Rightarrow> bool" where
  "is_number_char c =
     (is_digit c \<or> c = CHR ''-'' \<or> c = CHR ''+'' \<or> c = CHR ''.'' \<or> c = CHR ''e'' \<or> c = CHR ''E'')"

definition hex_value :: "char \<Rightarrow> nat option" where
  "hex_value c =
     (let n = (of_char c :: nat)
      in if 48 \<le> n \<and> n \<le> 57 then Some (n - 48)
         else if 97 \<le> n \<and> n \<le> 102 then Some (n - 87)
         else if 65 \<le> n \<and> n \<le> 70 then Some (n - 55)
         else None)"

definition exponent_ok :: "string \<Rightarrow> bool" where
  "exponent_ok r =
     (case r of
        [] \<Rightarrow> True
      | e # r' \<Rightarrow>
          (e = CHR ''e'' \<or> e = CHR ''E'') \<and>
          (let ds = (case r' of s # u \<Rightarrow> if s = CHR ''+'' \<or> s = CHR ''-'' then u else r' | [] \<Rightarrow> [])
           in ds \<noteq> [] \<and> list_all is_digit ds))"

definition fraction_ok :: "string \<Rightarrow> bool" where
  "fraction_ok r =
     (case r of
        [] \<Rightarrow> True
      | c # r' \<Rightarrow>
          if c = CHR ''.''
          then takeWhile is_digit r' \<noteq> [] \<and> exponent_ok (dropWhile is_digit r')
          else exponent_ok r)"

definition number_ok :: "string \<Rightarrow> bool" where
  "number_ok s =
     (case (case s of c # r \<Rightarrow> if c = CHR ''-'' then r else s | [] \<Rightarrow> []) of
        [] \<Rightarrow> False
      | d # r \<Rightarrow>
          if d = CHR ''0'' then fraction_ok r
          else is_digit d \<and> fraction_ok (dropWhile is_digit r))"

definition number_token :: "string \<Rightarrow> token option" where
  "number_token s = (if number_ok s then Some (TNumber s) else None)"

definition word_token :: "string \<Rightarrow> token option" where
  "word_token s =
     (if s = ''true'' then Some TTrue else if s = ''false'' then Some TFalse
      else if s = ''null'' then Some TNull else None)"

definition emit :: "token \<Rightarrow> token list option \<Rightarrow> token list option" where
  "emit t r = map_option ((#) t) r"

fun lex :: "lex_mode \<Rightarrow> string \<Rightarrow> token list option" where
  "lex LTop [] = Some []"
| "lex (LStr acc) [] = None"
| "lex (LEsc acc) [] = None"
| "lex (LUni acc k v) [] = None"
| "lex (LNum acc) [] = map_option (\<lambda>t. [t]) (number_token (rev acc))"
| "lex (LWord acc) [] = map_option (\<lambda>t. [t]) (word_token (rev acc))"
| "lex LTop (c # cs) =
     (if is_json_ws c then lex LTop cs
      else case punct c of
             Some t \<Rightarrow> emit t (lex LTop cs)
           | None \<Rightarrow>
               if c = DQUOTE then lex (LStr []) cs
               else if c = CHR ''-'' \<or> is_digit c then lex (LNum [c]) cs
               else if is_lower c then lex (LWord [c]) cs
               else None)"
| "lex (LStr acc) (c # cs) =
     (if c = DQUOTE then emit (TString (rev acc)) (lex LTop cs)
      else if c = BACKSLASH then lex (LEsc acc) cs
      else if (of_char c :: nat) < 32 then None
      else lex (LStr (c # acc)) cs)"
| "lex (LEsc acc) (c # cs) =
     (if c = DQUOTE \<or> c = BACKSLASH \<or> c = CHR ''/'' then lex (LStr (c # acc)) cs
      else if c = CHR ''b'' then lex (LStr (CHR 0x08 # acc)) cs
      else if c = CHR ''f'' then lex (LStr (CHR 0x0C # acc)) cs
      else if c = CHR ''n'' then lex (LStr (LF # acc)) cs
      else if c = CHR ''r'' then lex (LStr (CR # acc)) cs
      else if c = CHR ''t'' then lex (LStr (CHR 0x09 # acc)) cs
      else if c = CHR ''u'' then lex (LUni acc 4 0) cs
      else None)"
| "lex (LUni acc k v) (c # cs) =
     (case hex_value c of
        None \<Rightarrow> None
      | Some h \<Rightarrow>
          if k \<le> 1 then lex (LStr (char_of (16 * v + h) # acc)) cs
          else lex (LUni acc (k - 1) (16 * v + h)) cs)"
| "lex (LNum acc) (c # cs) =
     (if is_number_char c then lex (LNum (c # acc)) cs
      else case number_token (rev acc) of
             None \<Rightarrow> None
           | Some t \<Rightarrow>
               if is_json_ws c then emit t (lex LTop cs)
               else case punct c of
                      Some p \<Rightarrow> emit t (emit p (lex LTop cs))
                    | None \<Rightarrow> None)"
| "lex (LWord acc) (c # cs) =
     (if is_lower c then lex (LWord (c # acc)) cs
      else case word_token (rev acc) of
             None \<Rightarrow> None
           | Some t \<Rightarrow>
               if is_json_ws c then emit t (lex LTop cs)
               else case punct c of
                      Some p \<Rightarrow> emit t (emit p (lex LTop cs))
                    | None \<Rightarrow> None)"

text \<open>The value of a number token.\<close>

definition number_json :: "string \<Rightarrow> json" where
  "number_json s =
     (if list_ex (\<lambda>c. c = CHR ''.'' \<or> c = CHR ''e'' \<or> c = CHR ''E'') s then JFloat s
      else case s of
             c # r \<Rightarrow> if c = CHR ''-'' then JNum (- int (decimal_value r)) else JNum (int (decimal_value s))
           | [] \<Rightarrow> JNum 0)"

text \<open>
  The tokens are read by a pushdown automaton: the stack holds the arrays and objects
  that are still open (and the key whose value is being read), the state says what may
  come next. A key that occurs twice keeps its first position and its last value.
\<close>

datatype frame = FArr "json list" | FObj "(string \<times> json) list" | FKey string

datatype pstate =
    PValue | PArrStart | PArrNext | PObjStart | PObjKey | PObjColon string | PObjNext | PDone json

fun after_value :: "json \<Rightarrow> frame list \<Rightarrow> (frame list \<times> pstate) option" where
  "after_value v [] = Some ([], PDone v)"
| "after_value v (FArr xs # st) = Some (FArr (v # xs) # st, PArrNext)"
| "after_value v (FKey k # FObj ms # st) = Some (FObj (obj_set k v ms) # st, PObjNext)"
| "after_value v _ = None"

definition start_value :: "token \<Rightarrow> frame list \<Rightarrow> (frame list \<times> pstate) option" where
  "start_value t st =
     (case t of
        TString s \<Rightarrow> after_value (JString s) st
      | TNumber s \<Rightarrow> after_value (number_json s) st
      | TTrue \<Rightarrow> after_value (JBool True) st
      | TFalse \<Rightarrow> after_value (JBool False) st
      | TNull \<Rightarrow> after_value JNull st
      | TLBrace \<Rightarrow> Some (FObj [] # st, PObjStart)
      | TLBracket \<Rightarrow> Some (FArr [] # st, PArrStart)
      | _ \<Rightarrow> None)"

definition close_array :: "frame list \<Rightarrow> (frame list \<times> pstate) option" where
  "close_array st = (case st of FArr xs # rest \<Rightarrow> after_value (JArray (rev xs)) rest | _ \<Rightarrow> None)"

definition close_object :: "frame list \<Rightarrow> (frame list \<times> pstate) option" where
  "close_object st = (case st of FObj ms # rest \<Rightarrow> after_value (JObject ms) rest | _ \<Rightarrow> None)"

fun pstep :: "frame list \<times> pstate \<Rightarrow> token \<Rightarrow> (frame list \<times> pstate) option" where
  "pstep (st, PValue) t = start_value t st"
| "pstep (st, PArrStart) t = (if t = TRBracket then close_array st else start_value t st)"
| "pstep (st, PArrNext) t =
     (if t = TComma then Some (st, PValue) else if t = TRBracket then close_array st else None)"
| "pstep (st, PObjStart) t =
     (case t of TString k \<Rightarrow> Some (st, PObjColon k) | TRBrace \<Rightarrow> close_object st | _ \<Rightarrow> None)"
| "pstep (st, PObjKey) t = (case t of TString k \<Rightarrow> Some (st, PObjColon k) | _ \<Rightarrow> None)"
| "pstep (st, PObjColon k) t = (if t = TColon then Some (FKey k # st, PValue) else None)"
| "pstep (st, PObjNext) t =
     (if t = TComma then Some (st, PObjKey) else if t = TRBrace then close_object st else None)"
| "pstep (st, PDone v) t = None"

fun parse_tokens :: "frame list \<times> pstate \<Rightarrow> token list \<Rightarrow> json option" where
  "parse_tokens s [] = (case s of ([], PDone v) \<Rightarrow> Some v | _ \<Rightarrow> None)"
| "parse_tokens s (t # ts) = (case pstep s t of None \<Rightarrow> None | Some s' \<Rightarrow> parse_tokens s' ts)"

definition JSON_parse :: "string \<Rightarrow> json option" where
  "JSON_parse s = (case lex LTop s of None \<Rightarrow> None | Some ts \<Rightarrow> parse_tokens ([], PValue) ts)"

definition ex1 :: json where
  "ex1 = JObject [(''a'', JArray [JNum (-12), JNull, JString [CHR ''x'', DQUOTE, LF, CHR 0x01], JArray [], JObject []]), (''b'', JBool True)]"

section \<open>Tool execution\<close>

text \<open>
  A promise, by how it ends: it never settles, or it is fulfilled or rejected at some
  time (in milliseconds from the start of the invocation).
\<close>

datatype 'a promise = Pending | Fulfilled nat 'a | Rejected nat js_error

text \<open>\<^verbatim>\<open>CHARACTER_LIMIT\<close> (line 73) and \<^verbatim>\<open>truncateResult\<close> (line 205).\<close>

definition CHARACTER_LIMIT :: nat where
  "CHARACTER_LIMIT = 50000"

definition truncateResult :: "string \<Rightarrow> string \<times> bool" where
  "truncateResult txt =
     (if length txt \<le> CHARACTER_LIMIT then (txt, False)
      else (take CHARACTER_LIMIT txt, True))"

text \<open>\<^verbatim>\<open>s.lastIndexOf(c)\<close> for a single character, and \<^verbatim>\<open>s.slice(0, e)\<close>.\<close>

definition lastIndexOf :: "string \<Rightarrow> char \<Rightarrow> int" where
  "lastIndexOf s c =
     (if c \<in> set s then int (length s) - 1 - int (length (takeWhile (\<lambda>x. x \<noteq> c) (rev s)))
      else - 1)"

definition slice0 :: "string \<Rightarrow> int \<Rightarrow> string" where
  "slice0 s e = (if e < 0 then take (nat (int (length s) + e)) s else take (nat e) s)"

text \<open>
  \<^verbatim>\<open>McpToolResponse\<close> (line 62): the text of its single content item and the error flag
  (\<open>False\<close> when the property is absent).
\<close>

record McpToolResponse =
  content_text :: string
  isError :: bool

text \<open>The \<^verbatim>\<open>_message\<close> of line 251.\<close>

definition truncation_message :: string where
  "truncation_message =
     ''Result exceeded '' @ show_nat CHARACTER_LIMIT @ '' characters and was truncated''"

text \<open>
  The body of \<^verbatim>\<open>executeTool\<close> (lines 224 to 268) once the handler has settled: \<open>Inl\<close> is
  a handler that threw, \<open>Inr\<close> its result. \<open>render\<close> gives the JavaScript value that the
  typed result data stands for. A \<^verbatim>\<open>SyntaxError\<close> of \<^verbatim>\<open>JSON.parse\<close> is caught by the
  \<^verbatim>\<open>catch\<close> of line 261; the wording of its message is the engine's and is the
  parameter \<open>syntaxErrorMessage\<close>. \<^verbatim>\<open>logUsage\<close> only appends to a file and swallows its own
  failures; it is left out.
\<close>

definition tool_response ::
  "(string \<Rightarrow> string) \<Rightarrow> ('a \<Rightarrow> json) \<Rightarrow> js_error + 'a ToolResult \<Rightarrow> McpToolResponse" where
  "tool_response syntaxErrorMessage render outcome =
     (case outcome of
        Inl e \<Rightarrow> \<lparr>content_text = ''Error: '' @ getErrorMessage e, isError = True\<rparr>
      | Inr (ToolError err suggestion) \<Rightarrow>
          \<lparr>content_text = ''Error: '' @ err @
              (case suggestion of
                 Some s \<Rightarrow> if s \<noteq> [] then [LF] @ ''Suggestion: '' @ s else []
               | None \<Rightarrow> []),
           isError = True\<rparr>
      | Inr (ToolSuccess d rowCount) \<Rightarrow>
          (let jsonText = JSON_stringify (render d);
               (txt, truncated) = truncateResult jsonText
           in if truncated
              then (let cut = slice0 txt (lastIndexOf txt (CHR ''}'') + 1);
                        source = (if cut = [] then ''null'' else cut)
                    in case JSON_parse source of
                         Some parsed \<Rightarrow>
                           \<lparr>content_text =
                              JSON_stringify
                                (JObject [(''_truncated'', JBool True),
                                          (''_message'', JString truncation_message),
                                          (''data'', parsed)]),
                            isError = False\<rparr>
                       | None \<Rightarrow>
                           \<lparr>content_text = ''Error: '' @ syntaxErrorMessage source, isError = True\<rparr>)
              else \<lparr>content_text = txt, isError = False\<rparr>))"

text \<open>\<^verbatim>\<open>executeTool\<close> answers when the handler settles, and never rejects.\<close>

definition executeTool ::
  "(string \<Rightarrow> string) \<Rightarrow> ('a \<Rightarrow> json) \<Rightarrow> 'a ToolResult promise \<Rightarrow> McpToolResponse promise" where
  "executeTool syntaxErrorMessage render handler =
     (case handler of
        Pending \<Rightarrow> Pending
      | Fulfilled t r \<Rightarrow> Fulfilled t (tool_response syntaxErrorMessage render (Inr r))
      | Rejected t e \<Rightarrow> Fulfilled t (tool_response syntaxErrorMessage render (Inl e)))"

text \<open>The JavaScript values of the compressed results.\<close>

definition json_of_row :: "(string \<times> string) list \<Rightarrow> json" where
  "json_of_row row = JObject (map (\<lambda>(k, v). (k, JString v)) row)"

definition json_of_cell :: "string option \<Rightarrow> json" where
  "json_of_cell c = (case c of Some s \<Rightarrow> JString s | None \<Rightarrow> JNull)"

definition json_of_table :: "string list \<Rightarrow> string option list list \<Rightarrow> json" where
  "json_of_table hs rows =
     JObject [(''headers'', JArray (map JString hs)),
              (''rows'', JArray (map (\<lambda>r. JArray (map json_of_cell r)) rows))]"

fun json_of_CompressedResult :: "CompressedResult \<Rightarrow> json" where
  "json_of_CompressedResult (CompressedSimple rows) = JArray (map json_of_row rows)"
| "json_of_CompressedResult (CompressedTabular hs rows) = json_of_table hs rows"

text \<open>\<^verbatim>\<open>await p\<close> followed by code that does not wait.\<close>

definition then_sync :: "'a promise \<Rightarrow> ('a \<Rightarrow> 'b) \<Rightarrow> 'b promise" where
  "then_sync p f =
     (case p of Pending \<Rightarrow> Pending | Fulfilled t v \<Rightarrow> Fulfilled t (f v) | Rejected t e \<Rightarrow> Rejected t e)"

text \<open>
  \<^verbatim>\<open>await p\<close> followed by code that does not wait and may throw: an error thrown in an
  \<^verbatim>\<open>async\<close> function rejects its promise.
\<close>

definition then_try :: "'a promise \<Rightarrow> ('a \<Rightarrow> js_error + 'b) \<Rightarrow> 'b promise" where
  "then_try p f =
     (case p of
        Pending \<Rightarrow> Pending
      | Fulfilled t v \<Rightarrow> (case f v of Inl e \<Rightarrow> Rejected t e | Inr r \<Rightarrow> Fulfilled t r)
      | Rejected t e \<Rightarrow> Rejected t e)"

text \<open>
  \<^verbatim>\<open>executeSparqlTool\<close> (lines 275 to 286), given how its \<^verbatim>\<open>executeSparql\<close> call ends.
\<close>

definition executeSparqlTool ::
  "(string \<Rightarrow> string) \<Rightarrow> SparqlResult promise \<Rightarrow> McpToolResponse promise" where
  "executeSparqlTool syntaxErrorMessage queryResult =
     executeTool syntaxErrorMessage json_of_CompressedResult
       (then_sync queryResult
          (\<lambda>result. ToolSuccess (compressSparqlResult (Val result)) (Some (binding_count result))))"

subsection \<open>Truncation\<close>

text \<open>
  A query result of two rows whose second label has 50000 characters: its serialization
  is longer than the limit, and the part kept by \<^verbatim>\<open>truncateResult\<close> still contains the
  closing brace of the first row.
\<close>

definition long_text :: string where
  "long_text = replicate CHARACTER_LIMIT (CHR ''a'')"

definition long_label :: SparqlResult where
  "long_label = bare_result [[(''label'', lit ''x'')], [(''label'', lit long_text)]]"

definition long_label_cut :: string where
  "long_label_cut = ''[{'' @ [DQUOTE] @ ''label'' @ [DQUOTE] @ '':'' @ [DQUOTE] @ ''x'' @ [DQUOTE] @ ''}''"

lemma JSON_parse_Error: "JSON_parse (''Error: '' @ m) = None"
  by (simp add: JSON_parse_def is_json_ws_def punct_def is_digit_def is_lower_def)

lemma JSON_parse_long_label_cut: "JSON_parse long_label_cut = None"
  unfolding long_label_cut_def by code_simp

lemma concat_replicate_single: "concat (replicate n [c]) = replicate n c"
  by (induction n) simp_all

lemma escape_replicate_a:
  "concat (replicate n (json_escape_char (CHR ''a''))) = replicate n (CHR ''a'')"
  by (simp add: json_escape_char_def concat_replicate_single)

lemma json_quote_long_text: "json_quote long_text = DQUOTE # long_text @ [DQUOTE]"
  by (simp add: json_quote_def long_text_def escape_replicate_a)

lemma compress_long_label:
  "compressSparqlResult (Val long_label)
     = CompressedSimple [[(''label'', ''x'')], [(''label'', long_text)]]"
  by (simp add: compressSparqlResult_def long_label_def bare_result_def opt_chain_simps
      simplify_binding_def simplify_step_def Object_keys_def obj_get_def plain_set_def lit_def)

lemma stringify_long_label:
  "JSON_stringify (json_of_CompressedResult (compressSparqlResult (Val long_label)))
     = (long_label_cut @ '',{'' @ [DQUOTE] @ ''label'' @ [DQUOTE] @ '':'' @ [DQUOTE])
         @ long_text @ ([DQUOTE] @ ''}]'')"
  by (simp add: compress_long_label json_of_row_def json_quote_long_text long_label_cut_def)
     (simp add: json_quote_def json_escape_char_def)

lemma lastIndexOf_append_replicate:
  assumes "a \<noteq> c" and "c \<in> set xs"
  shows "lastIndexOf (xs @ replicate k a) c = lastIndexOf xs c"
proof -
  have "takeWhile (\<lambda>x. x \<noteq> c) (replicate k a @ rev xs)
          = replicate k a @ takeWhile (\<lambda>x. x \<noteq> c) (rev xs)"
    using assms(1) by (intro takeWhile_append2) auto
  with assms show ?thesis by (simp add: lastIndexOf_def)
qed

lemma length_long_text: "length long_text = CHARACTER_LIMIT"
  by (simp add: long_text_def)

definition long_label_kept :: string where
  "long_label_kept =
     (long_label_cut @ '',{'' @ [DQUOTE] @ ''label'' @ [DQUOTE] @ '':'' @ [DQUOTE])
       @ replicate (CHARACTER_LIMIT - 25) (CHR ''a'')"

lemma truncate_long_label:
  "truncateResult (JSON_stringify (json_of_CompressedResult (compressSparqlResult (Val long_label))))
     = (long_label_kept, True)"
proof -
  have "take CHARACTER_LIMIT (long_text @ [DQUOTE] @ ''}]'') = long_text"
    by (simp add: length_long_text)
  moreover have "take (CHARACTER_LIMIT - 25) long_text = replicate (CHARACTER_LIMIT - 25) (CHR ''a'')"
    by (simp add: long_text_def CHARACTER_LIMIT_def)
  ultimately show ?thesis
    by (simp add: truncateResult_def stringify_long_label length_long_text long_label_cut_def
        long_label_kept_def CHARACTER_LIMIT_def)
qed

lemma cut_long_label:
  "slice0 long_label_kept (lastIndexOf long_label_kept (CHR ''}'') + 1) = long_label_cut"
proof -
  let ?p = "long_label_cut @ '',{'' @ [DQUOTE] @ ''label'' @ [DQUOTE] @ '':'' @ [DQUOTE]"
  have "lastIndexOf long_label_kept (CHR ''}'') = lastIndexOf ?p (CHR ''}'')"
    unfolding long_label_kept_def
    by (rule lastIndexOf_append_replicate) (simp_all add: long_label_cut_def)
  also have "\<dots> = 13"
    by (simp add: lastIndexOf_def long_label_cut_def)
  finally show ?thesis
    by (simp add: slice0_def long_label_cut_def long_label_kept_def)
qed

text \<open>
  Claim C1 fails on the code. For the result \<open>long_label\<close> the serialized data exceeds
  the limit; the text up to the last closing brace of the kept part is \<^verbatim>\<open>[{"label":"x"}\<close>,
  an array that is never closed; \<^verbatim>\<open>JSON.parse\<close> throws on it, the \<^verbatim>\<open>catch\<close> of
  \<^verbatim>\<open>executeTool\<close> answers \<^verbatim>\<open>Error: ...\<close> with the error flag set, and that text is not
  JSON.
\<close>

theorem truncated_output_not_json:
  "executeSparqlTool syntaxErrorMessage (Fulfilled t long_label)
     = Fulfilled t \<lparr>content_text = ''Error: '' @ syntaxErrorMessage long_label_cut, isError = True\<rparr> \<and>
   CHARACTER_LIMIT
     < length (JSON_stringify (json_of_CompressedResult (compressSparqlResult (Val long_label)))) \<and>
   JSON_parse (''Error: '' @ syntaxErrorMessage long_label_cut) = None"
proof (intro conjI)
  have ne: "long_label_cut \<noteq> []" by (simp add: long_label_cut_def)
  show "executeSparqlTool syntaxErrorMessage (Fulfilled t long_label)
     = Fulfilled t \<lparr>content_text = ''Error: '' @ syntaxErrorMessage long_label_cut, isError = True\<rparr>"
    unfolding executeSparqlTool_def executeTool_def then_sync_def tool_response_def
    by (simp add: truncate_long_label cut_long_label JSON_parse_long_label_cut ne Let_def)
  show "CHARACTER_LIMIT
     < length (JSON_stringify (json_of_CompressedResult (compressSparqlResult (Val long_label))))"
    by (simp add: stringify_long_label length_long_text)
  show "JSON_parse (''Error: '' @ syntaxErrorMessage long_label_cut) = None"
    by (rule JSON_parse_Error)
qed

definition no_message :: "string \<Rightarrow> string" where
  "no_message s = []"

















section \<open>The query executor\<close>

text \<open>The constants of lines 106 and 121 to 134.\<close>

definition PREFIXES :: string where
  "PREFIXES =
     concat (map (\<lambda>l. LF # l)
       [''PREFIX rdf: <http://www.w3.org/1999/02/22-rdf-syntax-ns#>'',
        ''PREFIX rdfs: <http://www.w3.org/2000/01/rdf-schema#>'',
        ''PREFIX owl: <http://www.w3.org/2002/07/owl#>'',
        ''PREFIX skos: <http://www.w3.org/2004/02/skos/core#>'',
        ''PREFIX dct: <http://purl.org/dc/terms/>'',
        ''PREFIX xsd: <http://www.w3.org/2001/XMLSchema#>'',
        ''PREFIX dcat: <http://www.w3.org/ns/dcat#>'',
        ''PREFIX foaf: <http://xmlns.com/foaf/0.1/>'',
        ''PREFIX clv: <https://w3id.org/italia/onto/CLV/>'',
        ''PREFIX cpv: <https://w3id.org/italia/onto/CPV/>'',
        ''PREFIX l0: <https://w3id.org/italia/onto/l0/>'',
        ''PREFIX sm: <https://w3id.org/italia/onto/SM/>'']) @ [LF]"

definition ENDPOINT :: string where
  "ENDPOINT = ''https://schema.gov.it/sparql''"

text \<open>
  What \<^verbatim>\<open>fetch\<close> is given, and what it resolves to: the status line and the body, whose
  text arrives as a promise of its own. The network is a function from the request to the
  promise of the response; the list of requests sent so far is threaded through a call.
\<close>

record Request =
  url :: string
  http_method :: string
  req_headers :: "(string \<times> string) list"
  form :: "(string \<times> string) list"

record Response =
  ok :: bool
  status :: nat
  statusText :: string
  body :: "string promise"

text \<open>The request of lines 137 to 145.\<close>

definition sparql_request :: "string \<Rightarrow> Request" where
  "sparql_request query =
     \<lparr>url = ENDPOINT, http_method = ''POST'',
      req_headers = [(''Content-Type'', ''application/x-www-form-urlencoded''),
                     (''Accept'', ''application/sparql-results+json'')],
      form = [(''query'', PREFIXES @ [LF] @ query)]\<rparr>"

text \<open>
  \<^verbatim>\<open>response.json()\<close>: reads the body to its end and parses it; it rejects with the
  \<^verbatim>\<open>SyntaxError\<close> of the parser when the body is not JSON text.
\<close>

definition response_json :: "(string \<Rightarrow> string) \<Rightarrow> Response \<Rightarrow> json promise" where
  "response_json syntaxErrorMessage response =
     (case body response of
        Pending \<Rightarrow> Pending
      | Rejected t e \<Rightarrow> Rejected t e
      | Fulfilled t txt \<Rightarrow>
          (case JSON_parse txt of
             Some j \<Rightarrow> Fulfilled t j
           | None \<Rightarrow> Rejected t (JsError ''SyntaxError'' (syntaxErrorMessage txt))))"

text \<open>
  \<^verbatim>\<open>executeSparql\<close> (lines 136 to 152). The source passes no signal and no timeout to
  \<^verbatim>\<open>fetch\<close> and returns \<^verbatim>\<open>response.json()\<close> under a cast to \<^verbatim>\<open>SparqlResult\<close>, which checks
  nothing at run time: the result is the parsed body. The handlers above are modelled on
  values of the declared type, with every field they guard nullable.
\<close>

definition executeSparql ::
  "(string \<Rightarrow> string) \<Rightarrow> (Request \<Rightarrow> Response promise) \<Rightarrow> string \<Rightarrow> Request list
     \<Rightarrow> json promise \<times> Request list" where
  "executeSparql syntaxErrorMessage fetch query sent =
     (let request = sparql_request query
      in (case fetch request of
            Pending \<Rightarrow> Pending
          | Rejected t e \<Rightarrow> Rejected t e
          | Fulfilled t response \<Rightarrow>
              if \<not> ok response
              then Rejected t (Error (''SPARQL request failed: '' @ show_nat (status response)
                                       @ '' '' @ statusText response))
              else response_json syntaxErrorMessage response,
          sent @ [request]))"

text \<open>
  The specification's deadline, for a call started at time 0: the call has settled by the
  deadline, and a call that fails on expiry fails with an error named \<^verbatim>\<open>TimeoutError\<close>.
\<close>

definition fails_with_timeout :: "'a promise \<Rightarrow> bool" where
  "fails_with_timeout p =
     (case p of Rejected t e \<Rightarrow> error_name e = ''TimeoutError'' | _ \<Rightarrow> False)"

definition settled_by :: "nat \<Rightarrow> 'a promise \<Rightarrow> bool" where
  "settled_by deadline p =
     (case p of Pending \<Rightarrow> False | Fulfilled t v \<Rightarrow> t \<le> deadline | Rejected t e \<Rightarrow> t \<le> deadline)"

text \<open>Example networks.\<close>

definition silent_endpoint :: "Request \<Rightarrow> Response promise" where
  "silent_endpoint request = Pending"

definition answering :: "nat \<Rightarrow> nat \<Rightarrow> string \<Rightarrow> string \<Rightarrow> Request \<Rightarrow> Response promise" where
  "answering t code reason txt request =
     Fulfilled t \<lparr>ok = (200 \<le> code \<and> code \<le> 299), status = code, statusText = reason,
                  body = Fulfilled t txt\<rparr>"

definition failing_endpoint :: "Request \<Rightarrow> Response promise" where
  "failing_endpoint request = Rejected 3 (JsError ''TypeError'' ''fetch failed'')"

text \<open>
  The expected tabular shape, in the specification's words: the declared variables and
  the rows, each row a mapping from variable names to tagged values.
\<close>

definition is_binding_value :: "json \<Rightarrow> bool" where
  "is_binding_value j =
     (case j of
        JObject kvs \<Rightarrow>
          (case (map_of kvs ''type'', map_of kvs ''value'') of
             (Some (JString ty), Some (JString v)) \<Rightarrow> True
           | _ \<Rightarrow> False)
      | _ \<Rightarrow> False)"

definition is_row :: "json \<Rightarrow> bool" where
  "is_row j = (case j of JObject kvs \<Rightarrow> list_all (\<lambda>kv. is_binding_value (snd kv)) kvs | _ \<Rightarrow> False)"

definition is_name :: "json \<Rightarrow> bool" where
  "is_name j = (case j of JString s \<Rightarrow> True | _ \<Rightarrow> False)"

definition tabular_shape :: "json \<Rightarrow> bool" where
  "tabular_shape j =
     (case j of
        JObject kvs \<Rightarrow>
          (case (map_of kvs ''head'', map_of kvs ''results'') of
             (Some (JObject h), Some (JObject r)) \<Rightarrow>
               (case (map_of h ''vars'', map_of r ''bindings'') of
                  (Some (JArray vs), Some (JArray bs)) \<Rightarrow> list_all is_name vs \<and> list_all is_row bs
                | _ \<Rightarrow> False)
           | _ \<Rightarrow> False)
      | _ \<Rightarrow> False)"

definition a_query :: string where
  "a_query = ''SELECT ?s WHERE { ?s ?p ?o } LIMIT 1''"

text \<open>
  Claim C2 fails as stated: when the endpoint never answers, \<^verbatim>\<open>executeSparql\<close> never
  settles. It does not fail with a timeout error, at the deadline or ever.
\<close>

theorem no_deadline_counterexample:
  "fst (executeSparql no_message silent_endpoint a_query []) = Pending \<and>
   \<not> fails_with_timeout (fst (executeSparql no_message silent_endpoint a_query [])) \<and>
   \<not> settled_by 30000 (fst (executeSparql no_message silent_endpoint a_query []))"
  by (simp add: executeSparql_def silent_endpoint_def fails_with_timeout_def settled_by_def)

text \<open>
  Claim C2 as amended. Every call sends exactly one request, whatever the outcome (there
  is no retry); it attaches no deadline and stays pending for as long as the endpoint
  does not answer; it fails with a timeout error only when \<^verbatim>\<open>fetch\<close> itself or the reading
  of the body fails with one; and a response with a non-success status fails, when it
  arrives, with the plain \<^verbatim>\<open>Error\<close> of line 148.
\<close>

theorem executeSparql_one_request_no_deadline:
  "snd (executeSparql msg fetch q sent) = sent @ [sparql_request q] \<and>
   (fetch (sparql_request q) = Pending \<longrightarrow> fst (executeSparql msg fetch q sent) = Pending) \<and>
   (fails_with_timeout (fst (executeSparql msg fetch q sent)) \<longrightarrow>
      fails_with_timeout (fetch (sparql_request q)) \<or>
      (\<exists>t r. fetch (sparql_request q) = Fulfilled t r \<and> fails_with_timeout (body r))) \<and>
   (\<forall>t r. fetch (sparql_request q) = Fulfilled t r \<and> \<not> ok r \<longrightarrow>
      fst (executeSparql msg fetch q sent)
        = Rejected t (Error (''SPARQL request failed: '' @ show_nat (status r) @ '' '' @ statusText r)))"
  by (auto simp: executeSparql_def response_json_def fails_with_timeout_def Error_def Let_def
      split: promise.splits option.splits if_splits)

definition timing_out_endpoint :: "Request \<Rightarrow> Response promise" where
  "timing_out_endpoint request = Rejected 300000 (JsError ''TimeoutError'' ''The operation timed out'')"

lemma show_nat_503: "show_nat 503 = ''503''"
  by (simp add: show_nat.simps [of 503] show_nat.simps [of 50] show_nat.simps [of 5] digit_char_def)

theorem executeSparql_one_request_no_deadline_witness:
  "silent_endpoint (sparql_request a_query) = Pending \<and>
   executeSparql no_message silent_endpoint a_query [] = (Pending, [sparql_request a_query]) \<and>
   fails_with_timeout (fst (executeSparql no_message timing_out_endpoint a_query [])) \<and>
   fails_with_timeout (timing_out_endpoint (sparql_request a_query)) \<and>
   fst (executeSparql no_message (answering 5 503 ''Service Unavailable'' []) a_query [])
     = Rejected 5 (Error ''SPARQL request failed: 503 Service Unavailable'')"
proof -
  have p: "silent_endpoint (sparql_request a_query) = Pending"
    by (simp add: silent_endpoint_def)
  from executeSparql_one_request_no_deadline [of no_message silent_endpoint a_query "[]"] p
  have a: "executeSparql no_message silent_endpoint a_query [] = (Pending, [sparql_request a_query])"
    by (simp add: prod_eq_iff)
  have t: "fails_with_timeout (fst (executeSparql no_message timing_out_endpoint a_query []))"
    by (simp add: executeSparql_def timing_out_endpoint_def fails_with_timeout_def)
  with executeSparql_one_request_no_deadline [of no_message timing_out_endpoint a_query "[]"]
  have b: "fails_with_timeout (timing_out_endpoint (sparql_request a_query))"
    by (auto simp: timing_out_endpoint_def)
  have f: "answering 5 503 ''Service Unavailable'' [] (sparql_request a_query)
             = Fulfilled 5 \<lparr>ok = False, status = 503, statusText = ''Service Unavailable'',
                            body = Fulfilled 5 []\<rparr>"
    by (simp add: answering_def)
  from executeSparql_one_request_no_deadline
         [of no_message "answering 5 503 ''Service Unavailable'' []" a_query "[]"] f
  have c: "fst (executeSparql no_message (answering 5 503 ''Service Unavailable'' []) a_query [])
     = Rejected 5 (Error ''SPARQL request failed: 503 Service Unavailable'')"
    by (simp add: show_nat_503)
  from p a t b c show ?thesis by blast
qed

text \<open>
  Claim C3 fails as stated: the body \<^verbatim>\<open>{}\<close> has neither variables nor rows, and it is
  returned as a successful result.
\<close>

theorem no_shape_check_counterexample:
  "fst (executeSparql no_message (answering 5 200 ''OK'' ''{}'') a_query []) = Fulfilled 5 (JObject []) \<and>
   \<not> tabular_shape (JObject [])"
proof
  have "JSON_parse ''{}'' = Some (JObject [])" by code_simp
  then show "fst (executeSparql no_message (answering 5 200 ''OK'' ''{}'') a_query [])
               = Fulfilled 5 (JObject [])"
    by (simp add: executeSparql_def answering_def response_json_def)
  show "\<not> tabular_shape (JObject [])"
    by (simp add: tabular_shape_def)
qed

text \<open>
  Claim C3 as amended. When the endpoint answers with a success status and the body
  arrives, a body that is not JSON text makes the call fail with the \<^verbatim>\<open>SyntaxError\<close> of
  the parser, and a body that is JSON text is returned as the result, whatever its shape.
\<close>

theorem executeSparql_returns_parsed_body:
  "fetch (sparql_request q) = Fulfilled t r \<and> ok r \<and> body r = Fulfilled t' txt \<longrightarrow>
     fst (executeSparql msg fetch q sent)
       = (case JSON_parse txt of
            Some j \<Rightarrow> Fulfilled t' j
          | None \<Rightarrow> Rejected t' (JsError ''SyntaxError'' (msg txt)))"
  by (simp add: executeSparql_def response_json_def)

theorem executeSparql_returns_parsed_body_witness:
  "fst (executeSparql no_message (answering 5 200 ''OK'' ''{}'') a_query []) = Fulfilled 5 (JObject []) \<and>
   fst (executeSparql no_message (answering 5 200 ''OK'' ''<html>'') a_query [])
     = Rejected 5 (JsError ''SyntaxError'' [])"
proof -
  have p1: "JSON_parse ''{}'' = Some (JObject [])" by code_simp
  have p2: "JSON_parse ''<html>'' = None" by code_simp
  have f: "answering 5 200 ''OK'' s (sparql_request a_query)
             = Fulfilled 5 \<lparr>ok = True, status = 200, statusText = ''OK'', body = Fulfilled 5 s\<rparr>"
    for s by (simp add: answering_def)
  from executeSparql_returns_parsed_body
         [of "answering 5 200 ''OK'' ''{}''" a_query 5
             "\<lparr>ok = True, status = 200, statusText = ''OK'', body = Fulfilled 5 ''{}''\<rparr>"
             5 "''{}''" no_message "[]"]
       f [of "''{}''"] p1
  have a: "fst (executeSparql no_message (answering 5 200 ''OK'' ''{}'') a_query [])
             = Fulfilled 5 (JObject [])"
    by simp
  from executeSparql_returns_parsed_body
         [of "answering 5 200 ''OK'' ''<html>''" a_query 5
             "\<lparr>ok = True, status = 200, statusText = ''OK'', body = Fulfilled 5 ''<html>''\<rparr>"
             5 "''<html>''" no_message "[]"]
       f [of "''<html>''"] p2
  have b: "fst (executeSparql no_message (answering 5 200 ''OK'' ''<html>'') a_query [])
             = Rejected 5 (JsError ''SyntaxError'' [])"
    by (simp add: no_message_def)
  from a b show ?thesis by blast
qed

section \<open>Fan-out\<close>

text \<open>
  \<^verbatim>\<open>Promise.all(ps)\<close>: rejected with the earliest rejection among \<open>ps\<close> (the first in
  the array among those of the same time), whatever the other promises do; otherwise
  fulfilled with all the values once the last one has arrived; pending when one of them
  never settles and none rejects.
\<close>

fun earliest_rejection :: "'a promise list \<Rightarrow> (nat \<times> js_error) option" where
  "earliest_rejection [] = None"
| "earliest_rejection (p # ps) =
     (case p of
        Rejected t e \<Rightarrow>
          (case earliest_rejection ps of
             Some (t', e') \<Rightarrow> if t' < t then Some (t', e') else Some (t, e)
           | None \<Rightarrow> Some (t, e))
      | _ \<Rightarrow> earliest_rejection ps)"

fun all_fulfilled :: "'a promise list \<Rightarrow> (nat \<times> 'a list) option" where
  "all_fulfilled [] = Some (0, [])"
| "all_fulfilled (p # ps) =
     (case p of
        Fulfilled t v \<Rightarrow>
          (case all_fulfilled ps of
             Some (t', vs) \<Rightarrow> Some (max t t', v # vs)
           | None \<Rightarrow> None)
      | _ \<Rightarrow> None)"

definition Promise_all :: "'a promise list \<Rightarrow> 'a list promise" where
  "Promise_all ps =
     (case earliest_rejection ps of
        Some (t, e) \<Rightarrow> Rejected t e
      | None \<Rightarrow>
          (case all_fulfilled ps of
             Some (t, vs) \<Rightarrow> Fulfilled t vs
           | None \<Rightarrow> Pending))"

text \<open>The JavaScript values of the data that the listing tools return.\<close>

definition json_of_number :: "number \<Rightarrow> json" where
  "json_of_number n = (case n of Num i \<Rightarrow> JNum i | NaN \<Rightarrow> JNull)"

definition json_of_PaginationInfo :: "PaginationInfo \<Rightarrow> json" where
  "json_of_PaginationInfo p =
     JObject [(''total'', json_of_number (total_p p)),
              (''count'', JNum (int (count p))),
              (''offset'', JNum (offset p)),
              (''has_more'', JBool (has_more p)),
              (''next_offset'', (case next_offset p of Some n \<Rightarrow> JNum n | None \<Rightarrow> JNull))]"

definition json_of_ListDatasetsData :: "ListDatasetsData \<Rightarrow> json" where
  "json_of_ListDatasetsData d =
     JObject [(''items'', json_of_CompressedResult (items d)),
              (''pagination'', json_of_PaginationInfo (pagination d))]"

text \<open>
  What \<^verbatim>\<open>JSON.stringify\<close> writes for a value that a dictionary answered: a function is
  left out of an object and is \<^verbatim>\<open>null\<close> in an array, and \<^verbatim>\<open>Object.prototype\<close> has no
  enumerable property of its own.
\<close>

definition json_of_member :: "string \<Rightarrow> string property_value \<Rightarrow> (string \<times> json) list" where
  "json_of_member k v =
     (case v of
        Own s \<Rightarrow> [(k, JString s)]
      | Builtin f \<Rightarrow> []
      | ObjectPrototype \<Rightarrow> [(k, JObject [])])"

definition json_of_value_cell :: "string property_value option \<Rightarrow> json" where
  "json_of_value_cell c =
     (case c of
        Some (Own s) \<Rightarrow> JString s
      | Some (Builtin f) \<Rightarrow> JNull
      | Some ObjectPrototype \<Rightarrow> JObject []
      | None \<Rightarrow> JNull)"

definition json_of_value_table :: "string list \<Rightarrow> string property_value option list list \<Rightarrow> json" where
  "json_of_value_table hs rows =
     JObject [(''headers'', JArray (map JString hs)),
              (''rows'', JArray (map (\<lambda>r. JArray (map json_of_value_cell r)) rows))]"

definition json_of_Municipality :: "Municipality \<Rightarrow> json" where
  "json_of_Municipality m =
     JObject ([(''notation'', JString (notation_m m)), (''name'', JString (name_m m))]
              @ (case belfiore_m m of Some b \<Rightarrow> json_of_member ''belfiore'' b | None \<Rightarrow> []))"

fun json_of_MunicipalityList :: "MunicipalityList \<Rightarrow> json" where
  "json_of_MunicipalityList (MunicipalityTable hs rows) = json_of_value_table hs rows"
| "json_of_MunicipalityList (MunicipalityRecords ms) = JArray (map json_of_Municipality ms)"

definition json_of_ListMunicipalitiesData :: "ListMunicipalitiesData \<Rightarrow> json" where
  "json_of_ListMunicipalitiesData d =
     JObject [(''municipalities'', json_of_MunicipalityList (municipalities d)),
              (''pagination'', json_of_PaginationInfo (pagination_m d))]"

definition json_of_Province :: "Province \<Rightarrow> json" where
  "json_of_Province p =
     JObject ([(''notation'', JString (notation_p p)), (''name'', JString (name_p p))]
              @ (case sigla_p p of Some v \<Rightarrow> json_of_member ''sigla'' v
                                 | None \<Rightarrow> [(''sigla'', JNull)])
              @ (case metro_p p of Some v \<Rightarrow> json_of_member ''metro'' v
                                 | None \<Rightarrow> [(''metro'', JNull)]))"

fun json_of_ProvinceList :: "ProvinceList \<Rightarrow> json" where
  "json_of_ProvinceList (ProvinceTable hs rows) = json_of_value_table hs rows"
| "json_of_ProvinceList (ProvinceRecords ps) = JArray (map json_of_Province ps)"

definition json_of_profile :: "(string \<times> CompressedResult) list \<Rightarrow> json" where
  "json_of_profile res = JObject (map (\<lambda>(k, c). (k, json_of_CompressedResult c)) res)"

text \<open>
  The fan-out tools, given how each of their \<^verbatim>\<open>executeSparql\<close> calls ends: the handler
  awaits \<^verbatim>\<open>Promise.all\<close> and then computes its result without waiting again. The
  deduplication loops of \<^verbatim>\<open>list_municipalities\<close> and \<^verbatim>\<open>list_provinces\<close> may throw.
\<close>

definition list_datasets_tool ::
  "(string \<Rightarrow> string) \<Rightarrow> int \<Rightarrow> SparqlResult promise \<Rightarrow> SparqlResult promise
     \<Rightarrow> McpToolResponse promise" where
  "list_datasets_tool syntaxErrorMessage off dataQuery countQuery =
     executeTool syntaxErrorMessage json_of_ListDatasetsData
       (then_sync (Promise_all [dataQuery, countQuery])
          (\<lambda>rs. list_datasets_result off (rs ! 0) (rs ! 1)))"

definition list_municipalities_tool ::
  "(string \<Rightarrow> string) \<Rightarrow> (string \<Rightarrow> string \<Rightarrow> int) \<Rightarrow> int \<Rightarrow> int
     \<Rightarrow> SparqlResult promise \<Rightarrow> SparqlResult promise \<Rightarrow> SparqlResult promise
     \<Rightarrow> McpToolResponse promise" where
  "list_municipalities_tool syntaxErrorMessage localeCompare lim off namesQuery belfioreQuery countQuery =
     executeTool syntaxErrorMessage json_of_ListMunicipalitiesData
       (then_try (Promise_all [namesQuery, belfioreQuery, countQuery])
          (\<lambda>rs. list_municipalities_result localeCompare lim off (rs ! 0) (rs ! 1) (rs ! 2)))"

definition list_provinces_tool ::
  "(string \<Rightarrow> string) \<Rightarrow> (string \<Rightarrow> string \<Rightarrow> int)
     \<Rightarrow> SparqlResult promise \<Rightarrow> SparqlResult promise \<Rightarrow> SparqlResult promise
     \<Rightarrow> McpToolResponse promise" where
  "list_provinces_tool syntaxErrorMessage localeCompare namesQuery siglaQuery metroQuery =
     executeTool syntaxErrorMessage json_of_ProvinceList
       (then_try (Promise_all [namesQuery, siglaQuery, metroQuery])
          (\<lambda>rs. list_provinces_result localeCompare (rs ! 0) (rs ! 1) (rs ! 2)))"

text \<open>
  \<^verbatim>\<open>inspect_concept\<close> (lines 988 to 1009): one query for each of the five entries of
  \<^verbatim>\<open>queries\<close>.
\<close>

definition concept_queries :: "string list" where
  "concept_queries = [''definition'', ''hierarchy'', ''usage'', ''incoming'', ''outgoing'']"

definition inspect_concept_result ::
  "SparqlResult list \<Rightarrow> (string \<times> CompressedResult) list ToolResult" where
  "inspect_concept_result sparqlResults =
     ToolSuccess
       (foldl (\<lambda>res (name, r). obj_set name (compressSparqlResult (Val r)) res) []
          (zip concept_queries sparqlResults))
       (Some (foldl (\<lambda>sum r. sum + binding_count r) 0 sparqlResults))"

definition inspect_concept_tool ::
  "(string \<Rightarrow> string) \<Rightarrow> SparqlResult promise list \<Rightarrow> McpToolResponse promise" where
  "inspect_concept_tool syntaxErrorMessage queries =
     executeTool syntaxErrorMessage json_of_profile
       (then_sync (Promise_all queries) inspect_concept_result)"

lemma earliest_rejection_member:
  "earliest_rejection ps = Some (t, e) \<Longrightarrow> Rejected t e \<in> set ps"
proof (induction ps arbitrary: t e)
  case Nil
  then show ?case by simp
next
  case (Cons p ps)
  then show ?case
    by (cases p) (auto split: option.splits if_splits)
qed

lemma earliest_rejection_exists:
  "Rejected t e \<in> set ps \<Longrightarrow> \<exists>t' e'. earliest_rejection ps = Some (t', e')"
proof (induction ps)
  case Nil
  then show ?case by simp
next
  case (Cons p ps)
  then show ?case
    by (cases p) (auto split: option.splits)
qed

lemma fan_out_fails:
  assumes "Rejected t e \<in> set ps"
  shows "\<exists>t' e'. Rejected t' e' \<in> set ps \<and>
           executeTool msg render (then_sync (Promise_all ps) f)
             = Fulfilled t' \<lparr>content_text = ''Error: '' @ getErrorMessage e', isError = True\<rparr>"
proof -
  from earliest_rejection_exists [OF assms]
  obtain t' e' where r: "earliest_rejection ps = Some (t', e')" by blast
  then have "Rejected t' e' \<in> set ps" by (rule earliest_rejection_member)
  moreover have "executeTool msg render (then_sync (Promise_all ps) f)
             = Fulfilled t' \<lparr>content_text = ''Error: '' @ getErrorMessage e', isError = True\<rparr>"
    using r by (simp add: Promise_all_def then_sync_def executeTool_def tool_response_def)
  ultimately show ?thesis by blast
qed

lemma fan_out_fails_try:
  assumes "Rejected t e \<in> set ps"
  shows "\<exists>t' e'. Rejected t' e' \<in> set ps \<and>
           executeTool msg render (then_try (Promise_all ps) f)
             = Fulfilled t' \<lparr>content_text = ''Error: '' @ getErrorMessage e', isError = True\<rparr>"
proof -
  from earliest_rejection_exists [OF assms]
  obtain t' e' where r: "earliest_rejection ps = Some (t', e')" by blast
  then have "Rejected t' e' \<in> set ps" by (rule earliest_rejection_member)
  moreover have "executeTool msg render (then_try (Promise_all ps) f)
             = Fulfilled t' \<lparr>content_text = ''Error: '' @ getErrorMessage e', isError = True\<rparr>"
    using r by (simp add: Promise_all_def then_try_def executeTool_def tool_response_def)
  ultimately show ?thesis by blast
qed

text \<open>
  Claim C9. When one of the sub-queries of a fan-out fails, the tool answers with the
  error flag set and with the text \<^verbatim>\<open>Error: \<close> followed by the message of a failed
  sub-query, and with nothing else: no result of another sub-query is part of the answer.
  This holds for every handler that awaits \<^verbatim>\<open>Promise.all\<close> inside \<^verbatim>\<open>executeTool\<close>, and so
  for \<^verbatim>\<open>list_municipalities\<close> and \<^verbatim>\<open>inspect_concept\<close>.
\<close>

theorem fan_out_all_or_nothing:
  "(Rejected t e \<in> set ps \<longrightarrow>
      (\<exists>t' e'. Rejected t' e' \<in> set ps \<and>
         executeTool msg render (then_sync (Promise_all ps) f)
           = Fulfilled t' \<lparr>content_text = ''Error: '' @ getErrorMessage e', isError = True\<rparr>)) \<and>
   (Rejected t e \<in> set [namesQuery, belfioreQuery, countQuery] \<longrightarrow>
      (\<exists>t' e'. Rejected t' e' \<in> set [namesQuery, belfioreQuery, countQuery] \<and>
         list_municipalities_tool msg lc lim off namesQuery belfioreQuery countQuery
           = Fulfilled t' \<lparr>content_text = ''Error: '' @ getErrorMessage e', isError = True\<rparr>)) \<and>
   (Rejected t e \<in> set queries \<longrightarrow>
      (\<exists>t' e'. Rejected t' e' \<in> set queries \<and>
         inspect_concept_tool msg queries
           = Fulfilled t' \<lparr>content_text = ''Error: '' @ getErrorMessage e', isError = True\<rparr>))"
  unfolding list_municipalities_tool_def inspect_concept_tool_def
  by (intro conjI impI fan_out_fails fan_out_fails_try)

definition belfiore_down :: js_error where
  "belfiore_down = Error ''SPARQL request failed: 504 Gateway Timeout''"

theorem fan_out_all_or_nothing_witness:
  "Rejected 7 belfiore_down \<in> set [Fulfilled 2 roma_rows, Rejected 7 belfiore_down, Fulfilled 4 (total_of ''45'')] \<and>
   list_municipalities_tool no_message no_collation 50 0
       (Fulfilled 2 roma_rows) (Rejected 7 belfiore_down) (Fulfilled 4 (total_of ''45''))
     = Fulfilled 7 \<lparr>content_text = ''Error: SPARQL request failed: 504 Gateway Timeout'',
                    isError = True\<rparr> \<and>
   inspect_concept_tool no_message
       [Fulfilled 2 roma_rows, Fulfilled 3 roma_rows, Rejected 7 belfiore_down,
        Fulfilled 4 roma_rows, Fulfilled 9 roma_rows]
     = Fulfilled 7 \<lparr>content_text = ''Error: SPARQL request failed: 504 Gateway Timeout'',
                    isError = True\<rparr>"
proof -
  let ?ps = "[Fulfilled 2 roma_rows, Rejected 7 belfiore_down, Fulfilled 4 (total_of ''45'')]"
  let ?qs = "[Fulfilled 2 roma_rows, Fulfilled 3 roma_rows, Rejected 7 belfiore_down,
        Fulfilled 4 roma_rows, Fulfilled 9 roma_rows]"
  have m: "Rejected 7 belfiore_down \<in> set ?ps" by simp
  have n: "Rejected 7 belfiore_down \<in> set ?qs" by simp
  have msg: "''Error: '' @ getErrorMessage belfiore_down
               = ''Error: SPARQL request failed: 504 Gateway Timeout''"
    by (simp add: belfiore_down_def Error_def)
  from fan_out_all_or_nothing
         [of 7 belfiore_down ?ps no_message _ _ "Fulfilled 2 roma_rows" "Rejected 7 belfiore_down"
             "Fulfilled 4 (total_of ''45'')" no_collation 50 0 ?qs] m
  have a: "list_municipalities_tool no_message no_collation 50 0
       (Fulfilled 2 roma_rows) (Rejected 7 belfiore_down) (Fulfilled 4 (total_of ''45''))
     = Fulfilled 7 \<lparr>content_text = ''Error: '' @ getErrorMessage belfiore_down, isError = True\<rparr>"
    by auto
  from fan_out_all_or_nothing
         [of 7 belfiore_down ?ps no_message _ _ "Fulfilled 2 roma_rows" "Rejected 7 belfiore_down"
             "Fulfilled 4 (total_of ''45'')" no_collation 50 0 ?qs] n
  have b: "inspect_concept_tool no_message ?qs
     = Fulfilled 7 \<lparr>content_text = ''Error: '' @ getErrorMessage belfiore_down, isError = True\<rparr>"
    by auto
  from m a b show ?thesis unfolding msg by blast
qed

text \<open>
  An error thrown by the deduplication loop reaches the caller through the \<^verbatim>\<open>catch\<close> of
  \<^verbatim>\<open>executeTool\<close>: with a row under the key \<^verbatim>\<open>__proto__\<close>, \<^verbatim>\<open>list_municipalities\<close> answers
  with the message of the \<^verbatim>\<open>TypeError\<close> and no record.
\<close>

lemma list_municipalities_tool_throws:
  "list_municipalities_tool no_message no_collation 50 0
       (Fulfilled 2 proto_rows) (Fulfilled 3 (bare_result [])) (Fulfilled 4 (total_of ''45''))
     = Fulfilled 4 \<lparr>content_text = ''Error: '' @ getErrorMessage length_of_undefined,
                    isError = True\<rparr>"
proof -
  have l: "build_lookup ''belfiore'' (bare_result []) = []"
    by (simp add: build_lookup_def rows_of_def bare_result_def opt_chain_simps or_default_def)
  have i: "inherited ''060'' = (Undefined :: Municipality property_value nullable)"
    "inherited ''__proto__'' = (Val ObjectPrototype :: Municipality property_value nullable)"
    "inherited ''060'' = (Undefined :: string property_value nullable)"
    by (simp_all add: inherited_def Object_prototype_functions_def)
  have rp: "rows_of proto_rows =
      [[(''notation'', lit ''060''), (''name'', lit ''Roma'')],
       [(''notation'', lit ''__proto__''), (''name'', lit ''Roma'')]]"
    by (simp add: rows_of_def proto_rows_def bare_result_def opt_chain_simps or_default_def)
  have fv: "field_value [(''notation'', lit n), (''name'', lit nm)] ''notation'' = Val n"
    "field_value [(''notation'', lit n), (''name'', lit nm)] ''name'' = Val nm" for n nm
    by (simp_all add: field_value_def obj_get_def opt_chain_simps lit_def)
  have "sorted_municipalities no_collation proto_rows (bare_result []) = Inl length_of_undefined"
    by (simp add: sorted_municipalities_def l build_cityMap_def rp cityMap_step_def fv
        plain_get_def i truthy_value_def or_null_def Let_def)
  then show ?thesis
    by (simp add: list_municipalities_tool_def then_try_def Promise_all_def
        list_municipalities_result_def list_municipalities_data_def executeTool_def
        tool_response_def)
qed

end
